theory Spec2Isabelle
  imports Complex_Main
begin

section \<open>Tabular data (the part of pandas the validation package relies on)\<close>

text \<open>
  A column of a frame read by \<^verbatim>\<open>pd.read_csv\<close> has one dtype. A numeric column
  (int64, float64, bool) holds numbers, a missing entry being NaN; an object column holds
  text, a missing entry being NaN as well. Numbers are modelled as exact reals: rounding
  and the infinities of IEEE arithmetic are not part of the model, \<open>None\<close> is NaN.
\<close>

datatype column = NumCol "real option list" | ObjCol "string option list"

text \<open>A single value of a row, as \<^verbatim>\<open>row[name]\<close> yields it.\<close>

datatype cell = Num real | NaN | Str string

text \<open>
  A frame has an index of \<open>nrows\<close> positions (a \<^verbatim>\<open>RangeIndex\<close> after
  \<^verbatim>\<open>read_csv\<close>) and labelled columns, in file order.
\<close>

record dataframe =
  nrows :: nat
  columns :: "(string \<times> column) list"

fun col_len :: "column \<Rightarrow> nat" where
  "col_len (NumCol vs) = length vs"
| "col_len (ObjCol vs) = length vs"

text \<open>The invariant of a frame that \<^verbatim>\<open>read_csv\<close> returns: unique labels, every
  column as long as the index.\<close>

definition wf_dataframe :: "dataframe \<Rightarrow> bool" where
  "wf_dataframe df \<longleftrightarrow>
     distinct (map fst (columns df)) \<and> list_all (\<lambda>p. col_len (snd p) = nrows df) (columns df)"

text \<open>\<^verbatim>\<open>name in df.columns\<close>\<close>

definition has_column :: "dataframe \<Rightarrow> string \<Rightarrow> bool" where
  "has_column df name \<longleftrightarrow> name \<in> set (map fst (columns df))"

text \<open>\<^verbatim>\<open>df[name]\<close>; \<open>None\<close> where pandas raises \<^verbatim>\<open>KeyError\<close>.\<close>

definition get_column :: "dataframe \<Rightarrow> string \<Rightarrow> column option" where
  "get_column df name = map_of (columns df) name"

text \<open>\<^verbatim>\<open>len(df)\<close>\<close>

definition len_df :: "dataframe \<Rightarrow> nat" where
  "len_df df = nrows df"

text \<open>\<^verbatim>\<open>series.isna().sum()\<close>\<close>

fun isna_sum :: "column \<Rightarrow> nat" where
  "isna_sum (NumCol vs) = length (filter (\<lambda>v. v = None) vs)"
| "isna_sum (ObjCol vs) = length (filter (\<lambda>v. v = None) vs)"

text \<open>\<^verbatim>\<open>pd.api.types.is_numeric_dtype(series)\<close>\<close>

fun is_numeric_dtype :: "column \<Rightarrow> bool" where
  "is_numeric_dtype (NumCol vs) = True"
| "is_numeric_dtype (ObjCol vs) = False"

text \<open>\<^verbatim>\<open>(series <= 0).any()\<close> and \<^verbatim>\<open>(series < 0).any()\<close> on a numeric column:
  a comparison with NaN is false. They are only evaluated on numeric columns.\<close>

fun any_le_zero :: "column \<Rightarrow> bool" where
  "any_le_zero (NumCol vs) = list_ex (\<lambda>v. case v of None \<Rightarrow> False | Some x \<Rightarrow> x \<le> 0) vs"
| "any_le_zero (ObjCol vs) = False"

fun any_lt_zero :: "column \<Rightarrow> bool" where
  "any_lt_zero (NumCol vs) = list_ex (\<lambda>v. case v of None \<Rightarrow> False | Some x \<Rightarrow> x < 0) vs"
| "any_lt_zero (ObjCol vs) = False"

section \<open>data_utils.py\<close>

subsection \<open>Alias tables\<close>

definition REQUIRED_COLUMNS_energy :: "string list" where
  "REQUIRED_COLUMNS_energy = [''Energy_MeV'', ''energy_MeV'', ''E_MeV'', ''energy'']"

definition REQUIRED_COLUMNS_ks :: "string list" where
  "REQUIRED_COLUMNS_ks = [''k_s'', ''ks'', ''recombination_factor'', ''collection_efficiency'']"

definition REQUIRED_COLUMNS_dose_rate_air :: "string list" where
  "REQUIRED_COLUMNS_dose_rate_air =
     [''dose_rate_air_Gy_s'', ''dose_rate_air'', ''doserate_air_Gy_s'']"

definition REQUIRED_COLUMNS_dose_rate_water :: "string list" where
  "REQUIRED_COLUMNS_dose_rate_water =
     [''dose_rate_water_Gy_s'', ''dose_rate_water'', ''doserate_water_Gy_s'']"

subsection \<open>find_column\<close>

text \<open>
  \<^verbatim>\<open>
  for name in possible_names:
      if name in df.columns:
          return name
  return None
  \<close>
\<close>

fun find_column :: "dataframe \<Rightarrow> string list \<Rightarrow> string option" where
  "find_column df [] = None"
| "find_column df (name # possible_names) =
     (if has_column df name then Some name else find_column df possible_names)"

subsection \<open>validate_experimental_data\<close>

text \<open>
  The entries of the error list, one constructor per message of the source:
  \<^item> \<open>MissingColumns missing\<close>: \<^verbatim>\<open>Missing required columns: {missing}\<close>
  \<^item> \<open>EmptyFrame\<close>: \<^verbatim>\<open>DataFrame is empty\<close>
  \<^item> \<open>ContainsNaN col n\<close>: \<^verbatim>\<open>Column '{col}' contains {n} NaN values\<close>
  \<^item> \<open>NotNumeric col\<close>: \<^verbatim>\<open>Column '{col}' must be numeric\<close>
  \<^item> \<open>NonPositive col\<close>: \<^verbatim>\<open>Column '{col}' contains non-positive values\<close>
  \<^item> \<open>Negative col\<close>: \<^verbatim>\<open>Column '{col}' contains negative values\<close>
\<close>

datatype violation =
    MissingColumns "string list"
  | EmptyFrame
  | ContainsNaN string nat
  | NotNumeric string
  | NonPositive string
  | Negative string

text \<open>The loop over \<^verbatim>\<open>required\<close> that counts NaN entries.\<close>

fun nan_errors :: "(string \<times> column) list \<Rightarrow> violation list" where
  "nan_errors [] = []"
| "nan_errors ((col, c) # rest) =
     (if isna_sum c > 0 then [ContainsNaN col (isna_sum c)] else []) @ nan_errors rest"

text \<open>The dtype and range check of the energy and of the k\_s column.\<close>

definition positive_errors :: "string \<Rightarrow> column \<Rightarrow> violation list" where
  "positive_errors col c =
     (if \<not> is_numeric_dtype c then [NotNumeric col]
      else if any_le_zero c then [NonPositive col] else [])"

text \<open>The dtype and range check of the dose rate column.\<close>

definition nonnegative_errors :: "string \<Rightarrow> column \<Rightarrow> violation list" where
  "nonnegative_errors col c =
     (if \<not> is_numeric_dtype c then [NotNumeric col]
      else if any_lt_zero c then [Negative col] else [])"

text \<open>
  The list \<^verbatim>\<open>missing\<close> is not empty exactly when one of the three lookups fails,
  which is the second branch of the \<open>case\<close>.
\<close>

definition validate_experimental_data ::
  "dataframe \<Rightarrow> string \<Rightarrow> string \<Rightarrow> string \<Rightarrow> bool \<times> violation list" where
  "validate_experimental_data df energy_column ks_column dose_rate_column =
     (let required = [energy_column, ks_column, dose_rate_column];
          missing = filter (\<lambda>col. \<not> has_column df col) required
      in case (get_column df energy_column, get_column df ks_column,
               get_column df dose_rate_column) of
           (Some ce, Some ck, Some cd) \<Rightarrow>
             if len_df df = 0 then (False, [EmptyFrame])
             else
               (let errors =
                      nan_errors [(energy_column, ce), (ks_column, ck), (dose_rate_column, cd)]
                      @ positive_errors energy_column ce
                      @ positive_errors ks_column ck
                      @ nonnegative_errors dose_rate_column cd
                in (errors = [], errors))
         | _ \<Rightarrow> (False, [MissingColumns missing]))"

subsection \<open>load_experimental_data\<close>

text \<open>
  The canonical dataset that the loader hands to the comparison runner: one record per row
  of the file, with the three validated base columns under their canonical names and the
  per-minute dose rate. Validation has established that the base columns are numeric and
  free of NaN, so they are reals here; \<open>dose_rate_Gy_min\<close> may be a column of the file
  itself and is kept as it is. Further columns of the file are passed through unused and
  are not part of the model.
\<close>

record exp_row =
  Energy_MeV :: real
  k_s :: real
  dose_rate_Gy_s :: real
  dose_rate_Gy_min :: cell

text \<open>What \<^verbatim>\<open>data_path.exists()\<close> and \<^verbatim>\<open>pd.read_csv(data_path)\<close> find.\<close>

datatype csv_source = NoSuchFile | Unreadable | Csv dataframe

text \<open>
  The \<^verbatim>\<open>ValueError\<close>s of the package, by message:
  \<^item> \<open>CsvLoadFailed\<close>: \<^verbatim>\<open>Failed to load CSV file: ...\<close>
  \<^item> \<open>EnergyColumnNotFound tried\<close>: \<^verbatim>\<open>Could not find energy column. Tried: {tried}\<close>
  \<^item> \<open>KsColumnNotFound tried\<close>: \<^verbatim>\<open>Could not find k_s column. Tried: {tried}\<close>
  \<^item> \<open>DoseRateColumnNotFound tried\<close>: \<^verbatim>\<open>Could not find dose rate column. Tried: {tried}\<close>
  \<^item> \<open>ValidationFailed errors\<close>: \<^verbatim>\<open>Data validation failed:\<close> followed by every error
  \<^item> \<open>LengthMismatch\<close>: pandas' \<^verbatim>\<open>Length of values does not match length of index\<close>
\<close>

datatype value_error =
    CsvLoadFailed
  | EnergyColumnNotFound "string list"
  | KsColumnNotFound "string list"
  | DoseRateColumnNotFound "string list"
  | ValidationFailed "violation list"
  | LengthMismatch

text \<open>
  The exceptions of the model. \<open>SimulationError\<close> is any \<^verbatim>\<open>Exception\<close> raised by
  the simulation library. \<open>NotCanonical\<close> marks the frames that the typed dataset below
  cannot represent: after the renaming a canonical label is absent or on several columns,
  or it is on a column that is not numeric or holds NaN. With unique labels in the file
  this happens only when two roles are resolved to one column or when another column of
  the file already bears a canonical name; pandas then selects no or several columns, and
  the source fails at the first use (in the loader's last \<^verbatim>\<open>print\<close> for
  \<^verbatim>\<open>Energy_MeV\<close>) or carries on with a frame of another shape.
\<close>

datatype py_exception =
    FileNotFoundError
  | ValueError value_error
  | RuntimeError string
  | TypeError
  | AttributeError
  | SimulationError string
  | NotCanonical

text \<open>The three auto-detection blocks of the loader.\<close>

definition resolve_energy_column :: "dataframe \<Rightarrow> string option \<Rightarrow> py_exception + string" where
  "resolve_energy_column df energy_column =
     (case energy_column of
        Some c \<Rightarrow> Inr c
      | None \<Rightarrow>
          (case find_column df REQUIRED_COLUMNS_energy of
             None \<Rightarrow> Inl (ValueError (EnergyColumnNotFound REQUIRED_COLUMNS_energy))
           | Some c \<Rightarrow> Inr c))"

definition resolve_ks_column :: "dataframe \<Rightarrow> string option \<Rightarrow> py_exception + string" where
  "resolve_ks_column df ks_column =
     (case ks_column of
        Some c \<Rightarrow> Inr c
      | None \<Rightarrow>
          (case find_column df REQUIRED_COLUMNS_ks of
             None \<Rightarrow> Inl (ValueError (KsColumnNotFound REQUIRED_COLUMNS_ks))
           | Some c \<Rightarrow> Inr c))"

definition resolve_dose_rate_column :: "dataframe \<Rightarrow> string option \<Rightarrow> py_exception + string" where
  "resolve_dose_rate_column df dose_rate_column =
     (case dose_rate_column of
        Some c \<Rightarrow> Inr c
      | None \<Rightarrow>
          (case find_column df REQUIRED_COLUMNS_dose_rate_air of
             Some c \<Rightarrow> Inr c
           | None \<Rightarrow>
               (case find_column df REQUIRED_COLUMNS_dose_rate_water of
                  Some c \<Rightarrow> Inr c
                | None \<Rightarrow>
                    Inl (ValueError (DoseRateColumnNotFound
                      (REQUIRED_COLUMNS_dose_rate_air @ REQUIRED_COLUMNS_dose_rate_water))))))"

text \<open>
  \<^verbatim>\<open>df.rename(columns={energy_column: "Energy_MeV", ks_column: "k_s",
  dose_rate_column: "dose_rate_Gy_s"})\<close>: in the dict a later entry replaces an earlier one
  with the same key.
\<close>

definition rename_label :: "string \<Rightarrow> string \<Rightarrow> string \<Rightarrow> string \<Rightarrow> string" where
  "rename_label energy_column ks_column dose_rate_column name =
     (if name = dose_rate_column then ''dose_rate_Gy_s''
      else if name = ks_column then ''k_s''
      else if name = energy_column then ''Energy_MeV''
      else name)"

definition rename_columns :: "string \<Rightarrow> string \<Rightarrow> string \<Rightarrow> dataframe \<Rightarrow> dataframe" where
  "rename_columns energy_column ks_column dose_rate_column df =
     df\<lparr>columns :=
          map (\<lambda>p. (rename_label energy_column ks_column dose_rate_column (fst p), snd p))
            (columns df)\<rparr>"

text \<open>All columns bearing a label.\<close>

definition labelled :: "dataframe \<Rightarrow> string \<Rightarrow> column list" where
  "labelled df name = map snd (filter (\<lambda>p. fst p = name) (columns df))"

text \<open>The values of a numeric column without NaN.\<close>

fun numeric_values :: "column \<Rightarrow> real list option" where
  "numeric_values (NumCol vs) = those vs"
| "numeric_values (ObjCol vs) = None"

fun cells :: "column \<Rightarrow> cell list" where
  "cells (NumCol vs) = map (\<lambda>v. case v of None \<Rightarrow> NaN | Some x \<Rightarrow> Num x) vs"
| "cells (ObjCol vs) = map (\<lambda>v. case v of None \<Rightarrow> NaN | Some s \<Rightarrow> Str s) vs"

definition make_rows :: "real list \<Rightarrow> real list \<Rightarrow> real list \<Rightarrow> cell list \<Rightarrow> exp_row list" where
  "make_rows es ks ds ms =
     map (\<lambda>(e, k, d, m).
            \<lparr>Energy_MeV = e, k_s = k, dose_rate_Gy_s = d, dose_rate_Gy_min = m\<rparr>)
       (zip es (zip ks (zip ds ms)))"

text \<open>
  The standardisation at the end of the loader: rename, then
  \<^verbatim>\<open>
  if "dose_rate_Gy_min" not in df.columns:
      df["dose_rate_Gy_min"] = df["dose_rate_Gy_s"] * 60
  \<close>
  and the rows of the result.
\<close>

definition standardize :: "dataframe \<Rightarrow> string \<Rightarrow> string \<Rightarrow> string \<Rightarrow> exp_row list option" where
  "standardize df0 energy_column ks_column dose_rate_column =
     (let df = rename_columns energy_column ks_column dose_rate_column df0
      in case (labelled df ''Energy_MeV'', labelled df ''k_s'', labelled df ''dose_rate_Gy_s'') of
           ([ce], [ck], [cd]) \<Rightarrow>
             (case (numeric_values ce, numeric_values ck, numeric_values cd) of
                (Some es, Some ks, Some ds) \<Rightarrow>
                  (case labelled df ''dose_rate_Gy_min'' of
                     [] \<Rightarrow> Some (make_rows es ks ds (map (\<lambda>x. Num (x * 60)) ds))
                   | [cm] \<Rightarrow> Some (make_rows es ks ds (cells cm))
                   | _ \<Rightarrow> None)
              | _ \<Rightarrow> None)
         | _ \<Rightarrow> None)"

definition load_experimental_data ::
  "csv_source \<Rightarrow> string option \<Rightarrow> string option \<Rightarrow> string option
     \<Rightarrow> py_exception + exp_row list" where
  "load_experimental_data data_path energy_column ks_column dose_rate_column =
     (case data_path of
        NoSuchFile \<Rightarrow> Inl FileNotFoundError
      | Unreadable \<Rightarrow> Inl (ValueError CsvLoadFailed)
      | Csv df \<Rightarrow>
          (case resolve_energy_column df energy_column of
             Inl err \<Rightarrow> Inl err
           | Inr ec \<Rightarrow>
          (case resolve_ks_column df ks_column of
             Inl err \<Rightarrow> Inl err
           | Inr kc \<Rightarrow>
          (case resolve_dose_rate_column df dose_rate_column of
             Inl err \<Rightarrow> Inl err
           | Inr dc \<Rightarrow>
          (case validate_experimental_data df ec kc dc of
             (is_valid, errors) \<Rightarrow>
               if \<not> is_valid then Inl (ValueError (ValidationFailed errors))
               else (case standardize df ec kc dc of
                       None \<Rightarrow> Inl NotCanonical
                     | Some rows \<Rightarrow> Inr rows))))))"

section \<open>config.py\<close>

datatype backend_name = Cython | Python | Numba | Cupy | Parallel

datatype rdd_model = Gauss | Geiss

record simulation_config =
  backend :: backend_name
  voltage_V :: real
  electrode_gap_cm :: real
  particle :: string
  RDD_model :: rdd_model
  grid_size_um :: real
  a0_nm :: real
  use_beta :: bool
  seed :: "int option"
  SHOW_PLOT :: bool
  PRINT_parameters :: bool
  debug :: bool

text \<open>The fields of \<^verbatim>\<open>ComparisonConfig\<close> that the runner reads; the path stands for
  what is found there.\<close>

record comparison_config =
  experimental_data_path :: csv_source
  simulation :: simulation_config
  compare_initial_recombination :: bool
  compare_continuous_beam :: bool
  cfg_dose_rate_column :: "string option"
  cfg_energy_column :: "string option"
  cfg_ks_column :: "string option"

section \<open>The simulation library (hadrons.functions), as the runner sees it\<close>

text \<open>
  Both functions return a frame or raise. A row of the frame of
  \<^verbatim>\<open>ks_initial_IonTracks\<close> exposes \<^verbatim>\<open>E_MeV_u\<close> and \<^verbatim>\<open>ks\<close>, a row of the frame
  of \<^verbatim>\<open>IonTracks_continuous_beam\<close> exposes \<^verbatim>\<open>ks_IonTracks\<close> and \<^verbatim>\<open>E_MeV_u\<close>.
\<close>

record point_row =
  E_MeV_u :: "real option"
  ks :: "real option"

record beam_row =
  ks_IonTracks :: "real option"
  beam_E_MeV_u :: "real option"

text \<open>
  The arguments of one call of \<^verbatim>\<open>IonTracks_continuous_beam\<close>: the row's energy and
  dose rate, the seed, and the configuration that the remaining keyword arguments are
  taken from.
\<close>

record beam_args =
  arg_E_MeV_u :: real
  arg_doserate_Gy_min :: cell
  arg_myseed :: int
  arg_config :: simulation_config

type_synonym point_simulator = "real \<Rightarrow> simulation_config \<Rightarrow> py_exception + point_row list"

type_synonym beam_simulator = "beam_args \<Rightarrow> py_exception + beam_row list"

text \<open>
  \<^verbatim>\<open>random.randint(a, b)\<close> returns an integer \<open>N\<close> with \<open>a \<le> N \<le> b\<close>; \<open>g\<close> is the
  output of the generator that the draw consumes.
\<close>

definition randint :: "int \<Rightarrow> int \<Rightarrow> nat \<Rightarrow> int" where
  "randint a b g = a + int g mod (b - a + 1)"

section \<open>Arithmetic on values that may be NaN\<close>

definition fsub :: "real option \<Rightarrow> real option \<Rightarrow> real option" where
  "fsub a b = (case (a, b) of (Some x, Some y) \<Rightarrow> Some (x - y) | _ \<Rightarrow> None)"

definition fmul :: "real option \<Rightarrow> real option \<Rightarrow> real option" where
  "fmul a b = (case (a, b) of (Some x, Some y) \<Rightarrow> Some (x * y) | _ \<Rightarrow> None)"

text \<open>A division by zero gives an infinity or NaN in numpy; the model has no finite value
  for it.\<close>

definition fdiv :: "real option \<Rightarrow> real option \<Rightarrow> real option" where
  "fdiv a b =
     (case (a, b) of (Some x, Some y) \<Rightarrow> if y = 0 then None else Some (x / y) | _ \<Rightarrow> None)"

definition fabs :: "real option \<Rightarrow> real option" where
  "fabs a = (case a of Some x \<Rightarrow> Some \<bar>x\<bar> | None \<Rightarrow> None)"

text \<open>\<^verbatim>\<open>series.min()\<close>: NaN on an empty series.\<close>

fun series_min :: "real list \<Rightarrow> real option" where
  "series_min [] = None"
| "series_min (x # xs) = Some (fold min xs x)"

section \<open>comparison.py\<close>

text \<open>A row of \<^verbatim>\<open>comparison_initial\<close>.\<close>

record initial_record =
  ir_Energy_MeV :: real
  k_s_experimental :: "real option"
  ir_k_s_IonTracks :: "real option"
  ir_difference :: "real option"
  ir_relative_error_pct :: "real option"

text \<open>A row of \<^verbatim>\<open>comparison_continuous\<close>: the experimental row and four more columns.\<close>

record continuous_record = exp_row +
  k_s_IonTracks :: "real option"
  difference :: "real option"
  relative_error_pct :: "real option"
  absolute_error :: "real option"

record runner =
  config :: comparison_config
  exp_data :: "exp_row list"
  initial_results :: "point_row list option"
  continuous_results :: "beam_row list option"
  comparison_initial :: "initial_record list option"
  comparison_continuous :: "continuous_record list option"

subsection \<open>ComparisonRunner.\_\_init\_\_\<close>

definition ComparisonRunner :: "comparison_config \<Rightarrow> py_exception + runner" where
  "ComparisonRunner cfg =
     (case load_experimental_data (experimental_data_path cfg) (cfg_energy_column cfg)
             (cfg_ks_column cfg) (cfg_dose_rate_column cfg) of
        Inl err \<Rightarrow> Inl err
      | Inr data \<Rightarrow>
          Inr \<lparr>config = cfg, exp_data = data, initial_results = None,
               continuous_results = None, comparison_initial = None,
               comparison_continuous = None\<rparr>)"

subsection \<open>run_initial_recombination\<close>

text \<open>The first loop: one call per energy, a failing call is skipped.\<close>

fun initial_loop :: "point_simulator \<Rightarrow> simulation_config \<Rightarrow> real list \<Rightarrow> point_row list list" where
  "initial_loop ks_initial_IonTracks sim_config [] = []"
| "initial_loop ks_initial_IonTracks sim_config (energy_MeV # energies_MeV) =
     (case ks_initial_IonTracks energy_MeV sim_config of
        Inr result \<Rightarrow> result # initial_loop ks_initial_IonTracks sim_config energies_MeV
      | Inl e \<Rightarrow> initial_loop ks_initial_IonTracks sim_config energies_MeV)"

text \<open>The second loop: the comparison with the experimental rows of each energy.\<close>

fun compare_initial :: "exp_row list \<Rightarrow> point_row list \<Rightarrow> real list \<Rightarrow> initial_record list" where
  "compare_initial data results [] = []"
| "compare_initial data results (energy_MeV # energies_MeV) =
     (let exp_subset = filter (\<lambda>r. Energy_MeV r = energy_MeV) data;
          k_s_exp_min = series_min (map k_s exp_subset);
          iontracks_subset = filter (\<lambda>r. E_MeV_u r = Some energy_MeV) results
      in case iontracks_subset of
           [] \<Rightarrow> compare_initial data results energies_MeV
         | first # _ \<Rightarrow>
             (let k_s_iontracks = ks first
              in \<lparr>ir_Energy_MeV = energy_MeV,
                  k_s_experimental = k_s_exp_min,
                  ir_k_s_IonTracks = k_s_iontracks,
                  ir_difference = fsub k_s_iontracks k_s_exp_min,
                  ir_relative_error_pct =
                    fdiv (fmul (Some 100) (fsub k_s_iontracks k_s_exp_min)) k_s_exp_min\<rparr>
                 # compare_initial data results energies_MeV))"

definition run_initial_recombination ::
  "point_simulator \<Rightarrow> runner \<Rightarrow> (py_exception + initial_record list) \<times> runner" where
  "run_initial_recombination ks_initial_IonTracks self =
     (let sim_config = simulation (config self);
          energies_MeV = sort (remdups (map Energy_MeV (exp_data self)));
          initial_results_list = initial_loop ks_initial_IonTracks sim_config energies_MeV
      in if initial_results_list = []
         then (Inl (RuntimeError ''Failed to calculate any results for Initial Recombination''),
               self)
         else
           (let self1 = self\<lparr>initial_results := Some (concat initial_results_list)\<rparr>;
                comparison_list =
                  compare_initial (exp_data self1) (concat initial_results_list) energies_MeV;
                self2 = self1\<lparr>comparison_initial := Some comparison_list\<rparr>
            in (Inr comparison_list, self2)))"

subsection \<open>run_continuous_beam\<close>

text \<open>The keyword arguments of the call for the row at index \<open>idx\<close>.\<close>

definition call_args :: "simulation_config \<Rightarrow> int \<Rightarrow> nat \<Rightarrow> exp_row \<Rightarrow> beam_args" where
  "call_args sim_config seed0 idx row =
     \<lparr>arg_E_MeV_u = Energy_MeV row,
      arg_doserate_Gy_min = dose_rate_Gy_min row,
      arg_myseed = seed0 + int idx,
      arg_config = sim_config\<rparr>"

text \<open>The \<^verbatim>\<open>try\<close> statement of the loop body: the frame of the call, or on any
  exception the one-row frame \<^verbatim>\<open>{"ks_IonTracks": np.nan, "E_MeV_u": row["Energy_MeV"]}\<close>.\<close>

definition try_row :: "beam_simulator \<Rightarrow> beam_args \<Rightarrow> exp_row \<Rightarrow> beam_row list" where
  "try_row IonTracks_continuous_beam args row =
     (case IonTracks_continuous_beam args of
        Inr result \<Rightarrow> result
      | Inl e \<Rightarrow> [\<lparr>ks_IonTracks = None, beam_E_MeV_u = Some (Energy_MeV row)\<rparr>])"

text \<open>
  The loop over \<^verbatim>\<open>self.exp_data.iterrows()\<close>; \<open>idx\<close> is the index label of the row,
  its position. It returns the arguments of the calls made, in order, and
  \<^verbatim>\<open>continuous_results_list\<close>.
\<close>

fun continuous_loop ::
  "beam_simulator \<Rightarrow> simulation_config \<Rightarrow> int \<Rightarrow> nat \<Rightarrow> exp_row list
     \<Rightarrow> beam_args list \<times> beam_row list list" where
  "continuous_loop IonTracks_continuous_beam sim_config seed0 idx [] = ([], [])"
| "continuous_loop IonTracks_continuous_beam sim_config seed0 idx (row # rows) =
     (let args = call_args sim_config seed0 idx row;
          result = try_row IonTracks_continuous_beam args row;
          rest = continuous_loop IonTracks_continuous_beam sim_config seed0 (Suc idx) rows
      in (args # fst rest, result # snd rest))"

text \<open>\<^verbatim>\<open>if sim_config.seed is None: seed = random.randint(1, int(1e7))\<close>\<close>

definition determine_seed :: "simulation_config \<Rightarrow> nat \<Rightarrow> int" where
  "determine_seed sim_config g =
     (case seed sim_config of None \<Rightarrow> randint 1 10000000 g | Some s \<Rightarrow> s)"

text \<open>The four columns added to a copy of the experimental row.\<close>

definition comparison_row :: "exp_row \<Rightarrow> real option \<Rightarrow> continuous_record" where
  "comparison_row row v =
     (let d = fsub v (Some (k_s row))
      in \<lparr>Energy_MeV = Energy_MeV row, k_s = k_s row,
          dose_rate_Gy_s = dose_rate_Gy_s row, dose_rate_Gy_min = dose_rate_Gy_min row,
          k_s_IonTracks = v,
          difference = d,
          relative_error_pct = fdiv (fmul (Some 100) d) (Some (k_s row)),
          absolute_error = fabs d\<rparr>)"

text \<open>The comparison frame before \<^verbatim>\<open>dropna\<close>; the assignment of the values raises when
  their number is not the length of the index.\<close>

definition comparison_frame :: "exp_row list \<Rightarrow> real option list \<Rightarrow> py_exception + continuous_record list" where
  "comparison_frame data values =
     (if length values \<noteq> length data then Inl (ValueError LengthMismatch)
      else Inr (map (\<lambda>(row, v). comparison_row row v) (zip data values)))"

text \<open>\<^verbatim>\<open>dropna(subset=["k_s_IonTracks"])\<close>\<close>

definition dropna :: "continuous_record list \<Rightarrow> continuous_record list" where
  "dropna frame = filter (\<lambda>r. k_s_IonTracks r \<noteq> None) frame"

text \<open>The seed and the loop as \<^verbatim>\<open>run_continuous_beam\<close> runs them: the calls made and
  \<^verbatim>\<open>continuous_results_list\<close>.\<close>

definition continuous_batch ::
  "beam_simulator \<Rightarrow> nat \<Rightarrow> runner \<Rightarrow> beam_args list \<times> beam_row list list" where
  "continuous_batch IonTracks_continuous_beam g self =
     (let sim_config = simulation (config self);
          seed0 = determine_seed sim_config g
      in continuous_loop IonTracks_continuous_beam sim_config seed0 0 (exp_data self))"

definition run_continuous_beam ::
  "beam_simulator \<Rightarrow> nat \<Rightarrow> runner \<Rightarrow> (py_exception + continuous_record list) \<times> runner" where
  "run_continuous_beam IonTracks_continuous_beam g self =
     (let continuous_results_list = snd (continuous_batch IonTracks_continuous_beam g self)
      in if continuous_results_list = []
         then (Inl (RuntimeError ''Failed to calculate any results for Continuous Beam''), self)
         else
           (let continuous_df = concat continuous_results_list;
                self1 = self\<lparr>continuous_results := Some continuous_df\<rparr>
            in case comparison_frame (exp_data self1) (map ks_IonTracks continuous_df) of
                 Inl err \<Rightarrow> (Inl err, self1)
               | Inr frame \<Rightarrow>
                   (let self2 = self1\<lparr>comparison_continuous := Some (dropna frame)\<rparr>
                    in (Inr (dropna frame), self2))))"

subsection \<open>save_results\<close>

text \<open>\<^verbatim>\<open>len(x)\<close> of an optional frame: a \<^verbatim>\<open>TypeError\<close> on \<^verbatim>\<open>None\<close>.\<close>

definition py_len :: "'a list option \<Rightarrow> py_exception + nat" where
  "py_len x = (case x of None \<Rightarrow> Inl TypeError | Some rows \<Rightarrow> Inr (length rows))"

text \<open>\<^verbatim>\<open>x is not None and len(x) > 0\<close>: the second operand is evaluated only when the
  first is true.\<close>

definition present_and_nonempty :: "'a list option \<Rightarrow> py_exception + bool" where
  "present_and_nonempty x =
     (if x \<noteq> None then (case py_len x of Inl err \<Rightarrow> Inl err | Inr n \<Rightarrow> Inr (n > 0))
      else Inr False)"

text \<open>The files written. The clean file keeps the columns of \<^verbatim>\<open>clean_cols\<close> that the
  frame has, which are all seven of them.\<close>

record clean_record =
  cl_Energy_MeV :: real
  cl_dose_rate_Gy_s :: real
  cl_k_s :: real
  cl_k_s_IonTracks :: "real option"
  cl_difference :: "real option"
  cl_relative_error_pct :: "real option"
  cl_absolute_error :: "real option"

datatype csv_file =
    Comparison_initial_csv "initial_record list"
  | Comparison_continuous_csv "continuous_record list"
  | Comparison_continuous_clean_csv "clean_record list"

definition clean_row :: "continuous_record \<Rightarrow> clean_record" where
  "clean_row r =
     \<lparr>cl_Energy_MeV = Energy_MeV r, cl_dose_rate_Gy_s = dose_rate_Gy_s r, cl_k_s = k_s r,
      cl_k_s_IonTracks = k_s_IonTracks r, cl_difference = difference r,
      cl_relative_error_pct = relative_error_pct r, cl_absolute_error = absolute_error r\<rparr>"

text \<open>A method call or a selection on an optional frame (\<^verbatim>\<open>x.to_csv(...)\<close>,
  \<^verbatim>\<open>x.columns\<close>, \<^verbatim>\<open>x[cols]\<close>): an \<^verbatim>\<open>AttributeError\<close> or
  \<^verbatim>\<open>TypeError\<close> on \<^verbatim>\<open>None\<close>.\<close>

definition frame_of :: "'a list option \<Rightarrow> py_exception + 'a list" where
  "frame_of x = (case x of None \<Rightarrow> Inl AttributeError | Some rows \<Rightarrow> Inr rows)"

text \<open>The two blocks of \<^verbatim>\<open>save_results\<close>. Writing to disk is outside the model: each
  block returns the files it writes, in order.\<close>

definition save_initial :: "runner \<Rightarrow> py_exception + csv_file list" where
  "save_initial self =
     (case present_and_nonempty (comparison_initial self) of
        Inl err \<Rightarrow> Inl err
      | Inr False \<Rightarrow> Inr []
      | Inr True \<Rightarrow>
          (case frame_of (comparison_initial self) of
             Inl err \<Rightarrow> Inl err
           | Inr t \<Rightarrow> Inr [Comparison_initial_csv t]))"

definition save_continuous :: "runner \<Rightarrow> py_exception + csv_file list" where
  "save_continuous self =
     (case present_and_nonempty (comparison_continuous self) of
        Inl err \<Rightarrow> Inl err
      | Inr False \<Rightarrow> Inr []
      | Inr True \<Rightarrow>
          (case frame_of (comparison_continuous self) of
             Inl err \<Rightarrow> Inl err
           | Inr t \<Rightarrow>
               Inr [Comparison_continuous_csv t,
                    Comparison_continuous_clean_csv (map clean_row t)]))"

definition save_results :: "runner \<Rightarrow> py_exception + csv_file list" where
  "save_results self =
     (case save_initial self of
        Inl err \<Rightarrow> Inl err
      | Inr files1 \<Rightarrow>
          (case save_continuous self of
             Inl err \<Rightarrow> Inl err
           | Inr files2 \<Rightarrow> Inr (files1 @ files2)))"

section \<open>The properties, in the words of the specification\<close>

text \<open>
  The violations that the specification lists for validation: a NaN count above zero in a
  required column, a required column that is not numeric, a value of the energy or k\_s
  column that is not positive, a negative value of the dose rate column. Written from the
  specification, to be compared with what \<open>validate_experimental_data\<close> returns.
\<close>

definition violation_present ::
  "dataframe \<Rightarrow> string \<Rightarrow> string \<Rightarrow> string \<Rightarrow> violation \<Rightarrow> bool" where
  "violation_present df e k d v =
     (case v of
        ContainsNaN c n \<Rightarrow>
          c \<in> set [e, k, d] \<and>
          (case get_column df c of None \<Rightarrow> False | Some col \<Rightarrow> n = isna_sum col \<and> 0 < n)
      | NotNumeric c \<Rightarrow>
          c \<in> set [e, k, d] \<and>
          (case get_column df c of Some (ObjCol vs) \<Rightarrow> True | _ \<Rightarrow> False)
      | NonPositive c \<Rightarrow>
          (c = e \<or> c = k) \<and>
          (case get_column df c of
             Some (NumCol vs) \<Rightarrow> (\<exists>x. Some x \<in> set vs \<and> x \<le> 0)
           | _ \<Rightarrow> False)
      | Negative c \<Rightarrow>
          c = d \<and>
          (case get_column df c of
             Some (NumCol vs) \<Rightarrow> (\<exists>x. Some x \<in> set vs \<and> x < 0)
           | _ \<Rightarrow> False)
      | _ \<Rightarrow> False)"

text \<open>
  The reference value in the words of the specification's testable property: the k\_s of the
  experimental row with the minimum dose rate among the rows of an energy (the first such
  row if several have it).
\<close>

definition reference_at_min_dose_rate :: "exp_row list \<Rightarrow> real \<Rightarrow> real option" where
  "reference_at_min_dose_rate data energy =
     (case filter (\<lambda>r. Energy_MeV r = energy) data of
        [] \<Rightarrow> None
      | r # rs \<Rightarrow> Some (k_s (arg_min_list dose_rate_Gy_s (r # rs))))"

section \<open>Example inputs\<close>

text \<open>A file with a header line and no rows: \<^verbatim>\<open>read_csv\<close> gives every column the
  object dtype.\<close>

definition header_only :: dataframe where
  "header_only =
     \<lparr>nrows = 0,
      columns = [(''Energy_MeV'', ObjCol []), (''k_s'', ObjCol []),
                 (''dose_rate_air_Gy_s'', ObjCol [])]\<rparr>"

text \<open>A file whose energy column holds text and whose dose rate column has a negative
  entry.\<close>

definition mixed_frame :: dataframe where
  "mixed_frame =
     \<lparr>nrows = 2,
      columns = [(''Energy_MeV'', ObjCol [Some ''abc'', Some ''10'']),
                 (''k_s'', NumCol [Some 0.9, Some 0.8]),
                 (''dose_rate_air_Gy_s'', NumCol [Some (-1), Some 2])]\<rparr>"

text \<open>A file with two energy aliases, a k\_s alias, a water dose rate alias and a
  column outside the alias tables.\<close>

definition alias_frame :: dataframe where
  "alias_frame =
     \<lparr>nrows = 1,
      columns = [(''energy'', NumCol [Some 10]), (''E_MeV'', NumCol [Some 20]),
                 (''ks'', NumCol [Some 0.9]), (''dose_rate_water'', NumCol [Some 0.5]),
                 (''my_rate'', NumCol [Some 2])]\<rparr>"

text \<open>The defaults of \<^verbatim>\<open>SimulationConfig\<close>.\<close>

definition default_simulation :: simulation_config where
  "default_simulation =
     \<lparr>backend = Cython, voltage_V = 200, electrode_gap_cm = 2 / 10, particle = ''proton'',
      RDD_model = Gauss, grid_size_um = 5, a0_nm = 8, use_beta = False, seed = None,
      SHOW_PLOT = False, PRINT_parameters = False, debug = False\<rparr>"

text \<open>The dataset of the specification's end-to-end scenario: two energies, three dose
  rates each.\<close>

definition scenario_frame :: dataframe where
  "scenario_frame =
     \<lparr>nrows = 6,
      columns =
        [(''Energy_MeV'', NumCol [Some 10, Some 10, Some 10, Some 20, Some 20, Some 20]),
         (''k_s'', NumCol [Some (95 / 100), Some (90 / 100), Some (80 / 100),
                           Some (97 / 100), Some (93 / 100), Some (85 / 100)]),
         (''dose_rate_air_Gy_s'', NumCol [Some (1 / 2), Some 1, Some 2,
                                          Some (1 / 2), Some 1, Some 2])]\<rparr>"

definition scenario_config :: comparison_config where
  "scenario_config =
     \<lparr>experimental_data_path = Csv scenario_frame,
      simulation = default_simulation\<lparr>seed := Some 42\<rparr>,
      compare_initial_recombination = True, compare_continuous_beam = True,
      cfg_dose_rate_column = None, cfg_energy_column = None, cfg_ks_column = None\<rparr>"

definition scenario_data :: "exp_row list" where
  "scenario_data =
     [\<lparr>Energy_MeV = 10, k_s = 95 / 100, dose_rate_Gy_s = 1 / 2, dose_rate_Gy_min = Num 30\<rparr>,
      \<lparr>Energy_MeV = 10, k_s = 90 / 100, dose_rate_Gy_s = 1, dose_rate_Gy_min = Num 60\<rparr>,
      \<lparr>Energy_MeV = 10, k_s = 80 / 100, dose_rate_Gy_s = 2, dose_rate_Gy_min = Num 120\<rparr>,
      \<lparr>Energy_MeV = 20, k_s = 97 / 100, dose_rate_Gy_s = 1 / 2, dose_rate_Gy_min = Num 30\<rparr>,
      \<lparr>Energy_MeV = 20, k_s = 93 / 100, dose_rate_Gy_s = 1, dose_rate_Gy_min = Num 60\<rparr>,
      \<lparr>Energy_MeV = 20, k_s = 85 / 100, dose_rate_Gy_s = 2, dose_rate_Gy_min = Num 120\<rparr>]"

definition scenario_runner :: runner where
  "scenario_runner =
     \<lparr>config = scenario_config, exp_data = scenario_data, initial_results = None,
      continuous_results = None, comparison_initial = None, comparison_continuous = None\<rparr>"


text \<open>Simulators for the examples: one that always raises, one that raises for the seed of
  row 3 only, and a point estimate that knows 10 MeV only.\<close>

definition failing_beam :: beam_simulator where
  "failing_beam args = Inl (SimulationError ''no convergence'')"

definition stub_beam :: beam_simulator where
  "stub_beam args =
     (if arg_myseed args = 45 then Inl (SimulationError ''injected failure'')
      else Inr [\<lparr>ks_IonTracks = Some (9 / 10), beam_E_MeV_u = Some (arg_E_MeV_u args)\<rparr>])"

definition stub_point :: point_simulator where
  "stub_point E sim_config =
     (if E = 10 then Inr [\<lparr>E_MeV_u = Some 10, ks = Some (81 / 100)\<rparr>]
      else Inl (SimulationError ''no result''))"

section \<open>Validation: auxiliary facts\<close>

lemma get_column_None: "get_column df c = None \<longleftrightarrow> \<not> has_column df c"
  by (simp add: get_column_def has_column_def map_of_eq_None_iff)

lemma has_column_get: "has_column df c \<longleftrightarrow> (\<exists>col. get_column df c = Some col)"
  using get_column_None [of df c] by auto

lemma validate_missing:
  assumes "\<not> has_column df e \<or> \<not> has_column df k \<or> \<not> has_column df d"
  shows "validate_experimental_data df e k d =
           (False, [MissingColumns (filter (\<lambda>c. \<not> has_column df c) [e, k, d])])"
proof -
  have "get_column df e = None \<or> get_column df k = None \<or> get_column df d = None"
    using assms by (simp add: get_column_None)
  then show ?thesis
    unfolding validate_experimental_data_def Let_def
    by (auto split: option.splits)
qed

lemma validate_present:
  assumes "get_column df e = Some ce" "get_column df k = Some ck" "get_column df d = Some cd"
  shows "validate_experimental_data df e k d =
    (if len_df df = 0 then (False, [EmptyFrame]) else
    (let errors = nan_errors [(e, ce), (k, ck), (d, cd)] @ positive_errors e ce
                      @ positive_errors k ck @ nonnegative_errors d cd in (errors = [], errors)))"
  using assms
  by (simp add: validate_experimental_data_def Let_def)

lemma validate_empty:
  assumes "has_column df e" "has_column df k" "has_column df d" "len_df df = 0"
  shows "validate_experimental_data df e k d = (False, [EmptyFrame])"
proof -
  from assms obtain ce ck cd where
    "get_column df e = Some ce" "get_column df k = Some ck" "get_column df d = Some cd"
    by (auto simp: has_column_get)
  then show ?thesis using assms(4) by (simp add: validate_present)
qed

lemma list_ex_le: "(\<exists>x. Some x \<in> set vs \<and> x \<le> 0) = any_le_zero (NumCol vs)"
  by (induction vs) (auto split: option.splits)

lemma list_ex_lt: "(\<exists>x. Some x \<in> set vs \<and> x < 0) = any_lt_zero (NumCol vs)"
  by (induction vs) (auto split: option.splits)

lemma positive_errors_set:
  "v \<in> set (positive_errors c col) \<longleftrightarrow>
     (v = NotNumeric c \<and> \<not> is_numeric_dtype col) \<or>
     (v = NonPositive c \<and> is_numeric_dtype col \<and> any_le_zero col)"
  by (auto simp: positive_errors_def)

lemma nonnegative_errors_set:
  "v \<in> set (nonnegative_errors c col) \<longleftrightarrow>
     (v = NotNumeric c \<and> \<not> is_numeric_dtype col) \<or>
     (v = Negative c \<and> is_numeric_dtype col \<and> any_lt_zero col)"
  by (auto simp: nonnegative_errors_def)

lemma nan_errors_set:
  "v \<in> set (nan_errors ps) \<longleftrightarrow> (\<exists>c col. (c, col) \<in> set ps \<and> v = ContainsNaN c (isna_sum col) \<and> 0 < isna_sum col)"
  by (induction ps rule: nan_errors.induct) auto

lemma errors_iff_present:
  assumes "get_column df e = Some ce" "get_column df k = Some ck" "get_column df d = Some cd"
  shows "v \<in> set (nan_errors [(e, ce), (k, ck), (d, cd)] @ positive_errors e ce
                      @ positive_errors k ck @ nonnegative_errors d cd)
         \<longleftrightarrow> violation_present df e k d v"
proof (cases v)
  case (ContainsNaN c n)
  then show ?thesis using assms
    by (auto simp: violation_present_def nan_errors_set positive_errors_set nonnegative_errors_set)
next
  case (NotNumeric c)
  then show ?thesis using assms
    by (cases ce; cases ck; cases cd)
       (auto simp: violation_present_def nan_errors_set positive_errors_set nonnegative_errors_set)
next
  case (NonPositive c)
  then show ?thesis using assms
    by (cases ce; cases ck)
       (auto simp: violation_present_def nan_errors_set positive_errors_set nonnegative_errors_set
          list_ex_le simp del: any_le_zero.simps)
next
  case (Negative c)
  then show ?thesis using assms
    by (cases cd)
       (auto simp: violation_present_def nan_errors_set positive_errors_set nonnegative_errors_set
          list_ex_lt simp del: any_lt_zero.simps)
qed (auto simp: violation_present_def nan_errors_set positive_errors_set nonnegative_errors_set)

section \<open>The loader on frames that fail validation\<close>

lemma load_resolved:
  assumes "resolve_energy_column df eo = Inr e" "resolve_ks_column df ko = Inr k"
    "resolve_dose_rate_column df dc = Inr d"
  shows "load_experimental_data (Csv df) eo ko dc =
           (case validate_experimental_data df e k d of
              (is_valid, errors) \<Rightarrow>
                if \<not> is_valid then Inl (ValueError (ValidationFailed errors))
                else (case standardize df e k d of
                        None \<Rightarrow> Inl NotCanonical
                      | Some rows \<Rightarrow> Inr rows))"
  using assms by (simp add: load_experimental_data_def)

lemma resolve_energy_cases:
  "(\<exists>c. resolve_energy_column df eo = Inr c) \<or> (\<exists>err. resolve_energy_column df eo = Inl (ValueError err))"
  by (auto simp: resolve_energy_column_def split: option.splits)

lemma resolve_ks_cases:
  "(\<exists>c. resolve_ks_column df ko = Inr c) \<or> (\<exists>err. resolve_ks_column df ko = Inl (ValueError err))"
  by (auto simp: resolve_ks_column_def split: option.splits)

lemma resolve_dose_rate_cases:
  "(\<exists>c. resolve_dose_rate_column df dc = Inr c) \<or> (\<exists>err. resolve_dose_rate_column df dc = Inl (ValueError err))"
  by (auto simp: resolve_dose_rate_column_def split: option.splits)

lemma validate_fails_load_fails:
  assumes "\<And>e k d. fst (validate_experimental_data df e k d) = False"
  shows "\<exists>err. load_experimental_data (Csv df) eo ko dc = Inl (ValueError err)"
proof -
  consider (a) err where "resolve_energy_column df eo = Inl (ValueError err)"
    | (b) e err where "resolve_energy_column df eo = Inr e" "resolve_ks_column df ko = Inl (ValueError err)"
    | (c) e k err where "resolve_energy_column df eo = Inr e" "resolve_ks_column df ko = Inr k"
         "resolve_dose_rate_column df dc = Inl (ValueError err)"
    | (d) e k d where "resolve_energy_column df eo = Inr e" "resolve_ks_column df ko = Inr k"
         "resolve_dose_rate_column df dc = Inr d"
    using resolve_energy_cases [of df eo] resolve_ks_cases [of df ko]
      resolve_dose_rate_cases [of df dc] by blast
  then show ?thesis
  proof cases
    case a then show ?thesis by (simp add: load_experimental_data_def)
  next
    case b then show ?thesis by (simp add: load_experimental_data_def)
  next
    case c then show ?thesis by (simp add: load_experimental_data_def)
  next
    case d
    obtain errs where "validate_experimental_data df e k d = (False, errs)"
      using assms [of e k d] by (cases "validate_experimental_data df e k d") auto
    then show ?thesis using d by (simp add: load_resolved)
  qed
qed

lemma validate_empty_fails:
  assumes "len_df df = 0"
  shows "fst (validate_experimental_data df e k d) = False"
proof (cases "has_column df e \<and> has_column df k \<and> has_column df d")
  case True
  then show ?thesis using assms by (simp add: validate_empty)
next
  case False
  then show ?thesis by (simp add: validate_missing)
qed

text \<open>
  Claim C9. Validation of a frame with zero rows whose three resolved columns are present
  returns failure with the single error \<open>EmptyFrame\<close> (the message
  \<^verbatim>\<open>DataFrame is empty\<close>) and none of the NaN, dtype or range errors; the loader
  then raises the validation error with exactly that list, and loading a frame with zero
  rows raises a \<^verbatim>\<open>ValueError\<close> in every case.
\<close>

theorem empty_frame_short_circuits:
  "(has_column df e \<and> has_column df k \<and> has_column df d \<and> len_df df = 0 \<longrightarrow>
      validate_experimental_data df e k d = (False, [EmptyFrame]))
   \<and> (len_df df = 0 \<and> resolve_energy_column df eo = Inr e \<and> resolve_ks_column df ko = Inr k
        \<and> resolve_dose_rate_column df dc = Inr d
        \<and> has_column df e \<and> has_column df k \<and> has_column df d \<longrightarrow>
      load_experimental_data (Csv df) eo ko dc = Inl (ValueError (ValidationFailed [EmptyFrame])))
   \<and> (len_df df = 0 \<longrightarrow> (\<exists>err. load_experimental_data (Csv df) eo ko dc = Inl (ValueError err)))"
proof (intro conjI impI)
  assume "has_column df e \<and> has_column df k \<and> has_column df d \<and> len_df df = 0"
  then show "validate_experimental_data df e k d = (False, [EmptyFrame])"
    by (simp add: validate_empty)
next
  assume a: "len_df df = 0 \<and> resolve_energy_column df eo = Inr e \<and> resolve_ks_column df ko = Inr k
        \<and> resolve_dose_rate_column df dc = Inr d
        \<and> has_column df e \<and> has_column df k \<and> has_column df d"
  then have "validate_experimental_data df e k d = (False, [EmptyFrame])"
    by (simp add: validate_empty)
  with a show "load_experimental_data (Csv df) eo ko dc = Inl (ValueError (ValidationFailed [EmptyFrame]))"
    by (simp add: load_resolved)
next
  assume "len_df df = 0"
  then show "\<exists>err. load_experimental_data (Csv df) eo ko dc = Inl (ValueError err)"
    by (intro validate_fails_load_fails) (rule validate_empty_fails)
qed



lemma header_only_cols:
  "has_column header_only ''Energy_MeV''" "has_column header_only ''k_s''"
  "has_column header_only ''dose_rate_air_Gy_s''" "len_df header_only = 0"
  "wf_dataframe header_only"
  by (simp_all add: header_only_def has_column_def len_df_def wf_dataframe_def)

lemma header_only_resolve:
  "resolve_energy_column header_only None = Inr ''Energy_MeV''"
  "resolve_ks_column header_only None = Inr ''k_s''"
  "resolve_dose_rate_column header_only None = Inr ''dose_rate_air_Gy_s''"
  by (simp_all add: resolve_energy_column_def resolve_ks_column_def resolve_dose_rate_column_def
      REQUIRED_COLUMNS_energy_def REQUIRED_COLUMNS_ks_def REQUIRED_COLUMNS_dose_rate_air_def
      header_only_cols)

theorem empty_frame_short_circuits_witness:
  "has_column header_only ''Energy_MeV'' \<and> has_column header_only ''k_s''
   \<and> has_column header_only ''dose_rate_air_Gy_s'' \<and> len_df header_only = 0
   \<and> validate_experimental_data header_only ''Energy_MeV'' ''k_s'' ''dose_rate_air_Gy_s''
       = (False, [EmptyFrame])
   \<and> load_experimental_data (Csv header_only) None None None
       = Inl (ValueError (ValidationFailed [EmptyFrame]))"
  using empty_frame_short_circuits [of header_only "''Energy_MeV''" "''k_s''"
      "''dose_rate_air_Gy_s''" None None None]
  by (simp add: header_only_cols header_only_resolve)

text \<open>
  Claim C5 as stated fails on a frame without rows: all three columns are present, the
  energy column is not numeric, and the error list does not hold that violation.
\<close>

theorem validate_not_every_violation_counterexample:
  "has_column header_only ''Energy_MeV'' \<and> has_column header_only ''k_s''
   \<and> has_column header_only ''dose_rate_air_Gy_s''
   \<and> get_column header_only ''Energy_MeV'' = Some (ObjCol [])
   \<and> \<not> is_numeric_dtype (ObjCol [])
   \<and> violation_present header_only ''Energy_MeV'' ''k_s'' ''dose_rate_air_Gy_s''
        (NotNumeric ''Energy_MeV'')
   \<and> NotNumeric ''Energy_MeV'' \<notin>
        set (snd (validate_experimental_data header_only ''Energy_MeV'' ''k_s''
                    ''dose_rate_air_Gy_s''))"
  by (simp add: header_only_cols validate_empty)
     (simp add: header_only_def get_column_def violation_present_def)

section \<open>Validation reports every violation\<close>

text \<open>
  Claim C5, amended. If a required column is absent, validation returns failure with exactly
  one error, the list of the missing columns, and no other check is made. Otherwise, if the
  frame has at least one row, the error list holds exactly the violations present (a NaN
  count above zero in a required column, a required column that is not numeric, a value not
  positive in the energy or k\_s column, a negative value in the dose rate column), and the
  flag is true iff the list is empty.
\<close>

theorem validate_reports_every_violation:
  "(\<not> has_column df e \<or> \<not> has_column df k \<or> \<not> has_column df d \<longrightarrow>
      validate_experimental_data df e k d =
        (False, [MissingColumns (filter (\<lambda>c. \<not> has_column df c) [e, k, d])]))
   \<and> (has_column df e \<and> has_column df k \<and> has_column df d \<and> len_df df \<noteq> 0 \<longrightarrow>
        (\<forall>v. v \<in> set (snd (validate_experimental_data df e k d))
               \<longleftrightarrow> violation_present df e k d v)
        \<and> fst (validate_experimental_data df e k d)
            = (snd (validate_experimental_data df e k d) = []))"
proof (intro conjI impI)
  assume "\<not> has_column df e \<or> \<not> has_column df k \<or> \<not> has_column df d"
  then show "validate_experimental_data df e k d =
        (False, [MissingColumns (filter (\<lambda>c. \<not> has_column df c) [e, k, d])])"
    by (rule validate_missing)
next
  assume a: "has_column df e \<and> has_column df k \<and> has_column df d \<and> len_df df \<noteq> 0"
  then obtain ce ck cd where
    c: "get_column df e = Some ce" "get_column df k = Some ck" "get_column df d = Some cd"
    by (auto simp: has_column_get)
  show "\<forall>v. v \<in> set (snd (validate_experimental_data df e k d))
               \<longleftrightarrow> violation_present df e k d v"
    using a errors_iff_present [OF c] by (simp add: validate_present [OF c] Let_def)
  show "fst (validate_experimental_data df e k d)
            = (snd (validate_experimental_data df e k d) = [])"
    using a by (simp add: validate_present [OF c] Let_def)
qed

lemma mixed_frame_cols:
  "has_column mixed_frame ''Energy_MeV''" "has_column mixed_frame ''k_s''"
  "has_column mixed_frame ''dose_rate_air_Gy_s''" "len_df mixed_frame \<noteq> 0"
  "\<not> has_column mixed_frame ''energy''"
  by (simp_all add: mixed_frame_def has_column_def len_df_def)

lemma mixed_frame_present:
  "violation_present mixed_frame ''Energy_MeV'' ''k_s'' ''dose_rate_air_Gy_s''
     (NotNumeric ''Energy_MeV'')"
  "violation_present mixed_frame ''Energy_MeV'' ''k_s'' ''dose_rate_air_Gy_s''
     (Negative ''dose_rate_air_Gy_s'')"
proof -
  show "violation_present mixed_frame ''Energy_MeV'' ''k_s'' ''dose_rate_air_Gy_s''
     (NotNumeric ''Energy_MeV'')"
    by (simp add: violation_present_def mixed_frame_def get_column_def)
  have "\<exists>x::real. (x = - 1 \<or> x = 2) \<and> x < 0"
    by (rule exI [of _ "- 1"]) simp
  then show "violation_present mixed_frame ''Energy_MeV'' ''k_s'' ''dose_rate_air_Gy_s''
     (Negative ''dose_rate_air_Gy_s'')"
    by (simp add: violation_present_def mixed_frame_def get_column_def)
qed

theorem validate_reports_every_violation_witness:
  "has_column mixed_frame ''Energy_MeV'' \<and> has_column mixed_frame ''k_s''
   \<and> has_column mixed_frame ''dose_rate_air_Gy_s'' \<and> len_df mixed_frame \<noteq> 0
   \<and> NotNumeric ''Energy_MeV''
        \<in> set (snd (validate_experimental_data mixed_frame ''Energy_MeV'' ''k_s''
                      ''dose_rate_air_Gy_s''))
   \<and> Negative ''dose_rate_air_Gy_s''
        \<in> set (snd (validate_experimental_data mixed_frame ''Energy_MeV'' ''k_s''
                      ''dose_rate_air_Gy_s''))
   \<and> fst (validate_experimental_data mixed_frame ''Energy_MeV'' ''k_s''
             ''dose_rate_air_Gy_s'') = False
   \<and> \<not> has_column mixed_frame ''energy''
   \<and> validate_experimental_data mixed_frame ''energy'' ''k_s'' ''dose_rate_air_Gy_s''
       = (False, [MissingColumns [''energy'']])"
proof -
  note t1 = validate_reports_every_violation [of mixed_frame "''Energy_MeV''" "''k_s''"
      "''dose_rate_air_Gy_s''"]
  note t2 = validate_reports_every_violation [of mixed_frame "''energy''" "''k_s''"
      "''dose_rate_air_Gy_s''"]
  have m: "\<And>v. v \<in> set (snd (validate_experimental_data mixed_frame ''Energy_MeV'' ''k_s''
                      ''dose_rate_air_Gy_s''))
        \<longleftrightarrow> violation_present mixed_frame ''Energy_MeV'' ''k_s'' ''dose_rate_air_Gy_s'' v"
    and f: "fst (validate_experimental_data mixed_frame ''Energy_MeV'' ''k_s''
             ''dose_rate_air_Gy_s'') = (snd (validate_experimental_data mixed_frame ''Energy_MeV'' ''k_s''
             ''dose_rate_air_Gy_s'') = [])"
    using t1 mixed_frame_cols by blast+
  have n: "NotNumeric ''Energy_MeV''
        \<in> set (snd (validate_experimental_data mixed_frame ''Energy_MeV'' ''k_s''
                      ''dose_rate_air_Gy_s''))"
    using m mixed_frame_present(1) by blast
  have g: "Negative ''dose_rate_air_Gy_s''
        \<in> set (snd (validate_experimental_data mixed_frame ''Energy_MeV'' ''k_s''
                      ''dose_rate_air_Gy_s''))"
    using m mixed_frame_present(2) by blast
  have ff: "fst (validate_experimental_data mixed_frame ''Energy_MeV'' ''k_s''
             ''dose_rate_air_Gy_s'') = False"
    using f n by auto
  have mm: "validate_experimental_data mixed_frame ''energy'' ''k_s'' ''dose_rate_air_Gy_s''
       = (False, [MissingColumns [''energy'']])"
    using t2 mixed_frame_cols by simp
  show ?thesis using n g ff mm mixed_frame_cols by blast
qed

section \<open>Column resolution\<close>

lemma find_column_find: "find_column df names = List.find (has_column df) names"
  by (induction names) simp_all

lemma find_column_Some_iff:
  "find_column df names = Some n \<longleftrightarrow>
     (\<exists>i<length names. names ! i = n \<and> has_column df n
        \<and> (\<forall>j<i. \<not> has_column df (names ! j)))"
  unfolding find_column_find find_Some_iff by metis

lemma find_column_None_iff:
  "find_column df names = None \<longleftrightarrow> (\<forall>n\<in>set names. \<not> has_column df n)"
  unfolding find_column_find find_None_iff by blast

lemma load_explicit_absent:
  assumes "\<not> has_column df c"
  shows "\<exists>err. load_experimental_data (Csv df) (Some c) ko dc = Inl (ValueError err)"
    and "\<exists>err. load_experimental_data (Csv df) eo (Some c) dc = Inl (ValueError err)"
    and "\<exists>err. load_experimental_data (Csv df) eo ko (Some c) = Inl (ValueError err)"
proof -
  have e: "resolve_energy_column df (Some c) = Inr c"
    by (simp add: resolve_energy_column_def)
  have k: "resolve_ks_column df (Some c) = Inr c"
    by (simp add: resolve_ks_column_def)
  have d: "resolve_dose_rate_column df (Some c) = Inr c"
    by (simp add: resolve_dose_rate_column_def)
  show "\<exists>err. load_experimental_data (Csv df) (Some c) ko dc = Inl (ValueError err)"
    using resolve_ks_cases [of df ko] resolve_dose_rate_cases [of df dc] assms
    by (auto simp: load_experimental_data_def e validate_missing)
  show "\<exists>err. load_experimental_data (Csv df) eo (Some c) dc = Inl (ValueError err)"
    using resolve_energy_cases [of df eo] resolve_dose_rate_cases [of df dc] assms
    by (auto simp: load_experimental_data_def k validate_missing)
  show "\<exists>err. load_experimental_data (Csv df) eo ko (Some c) = Inl (ValueError err)"
    using resolve_energy_cases [of df eo] resolve_ks_cases [of df ko] assms
    by (auto simp: load_experimental_data_def d validate_missing)
qed

text \<open>
  Claim C6. \<open>find_column\<close> returns the first name of the list that is a column of the
  frame, and \<open>None\<close> when no name is. An explicit column name is resolved to itself
  whatever the frame and the alias tables hold, the loader then goes straight to validation
  and standardisation with the names given, and it raises a \<^verbatim>\<open>ValueError\<close> when an
  explicit column is absent (the missing-columns error when all three are explicit).
  Dose rate auto-detection takes the first air alias present, else the first water alias
  present, else fails with an error that names all six aliases.
\<close>

theorem column_resolution:
  "(find_column df names = Some n \<longleftrightarrow>
      (\<exists>i<length names. names ! i = n \<and> has_column df n
         \<and> (\<forall>j<i. \<not> has_column df (names ! j))))
   \<and> (find_column df names = None \<longleftrightarrow> (\<forall>n\<in>set names. \<not> has_column df n))
   \<and> resolve_energy_column df (Some c) = Inr c
   \<and> resolve_ks_column df (Some c) = Inr c
   \<and> resolve_dose_rate_column df (Some c) = Inr c
   \<and> load_experimental_data (Csv df) (Some e) (Some k) (Some d) =
       (case validate_experimental_data df e k d of
          (is_valid, errors) \<Rightarrow>
            if \<not> is_valid then Inl (ValueError (ValidationFailed errors))
            else (case standardize df e k d of
                    None \<Rightarrow> Inl NotCanonical
                  | Some rows \<Rightarrow> Inr rows))
   \<and> (\<not> has_column df c \<longrightarrow>
        (\<exists>err. load_experimental_data (Csv df) (Some c) ko dc = Inl (ValueError err))
        \<and> (\<exists>err. load_experimental_data (Csv df) eo (Some c) dc = Inl (ValueError err))
        \<and> (\<exists>err. load_experimental_data (Csv df) eo ko (Some c) = Inl (ValueError err)))
   \<and> (\<not> has_column df e \<or> \<not> has_column df k \<or> \<not> has_column df d \<longrightarrow>
        load_experimental_data (Csv df) (Some e) (Some k) (Some d) =
          Inl (ValueError (ValidationFailed
            [MissingColumns (filter (\<lambda>c. \<not> has_column df c) [e, k, d])])))
   \<and> (find_column df REQUIRED_COLUMNS_dose_rate_air = Some a \<longrightarrow>
        resolve_dose_rate_column df None = Inr a)
   \<and> (find_column df REQUIRED_COLUMNS_dose_rate_air = None
        \<and> find_column df REQUIRED_COLUMNS_dose_rate_water = Some w \<longrightarrow>
        resolve_dose_rate_column df None = Inr w)
   \<and> (find_column df REQUIRED_COLUMNS_dose_rate_air = None
        \<and> find_column df REQUIRED_COLUMNS_dose_rate_water = None \<longrightarrow>
        resolve_dose_rate_column df None =
          Inl (ValueError (DoseRateColumnNotFound
            [''dose_rate_air_Gy_s'', ''dose_rate_air'', ''doserate_air_Gy_s'',
             ''dose_rate_water_Gy_s'', ''dose_rate_water'', ''doserate_water_Gy_s''])))"
proof -
  have expl: "load_experimental_data (Csv df) (Some e) (Some k) (Some d) =
       (case validate_experimental_data df e k d of
          (is_valid, errors) \<Rightarrow>
            if \<not> is_valid then Inl (ValueError (ValidationFailed errors))
            else (case standardize df e k d of
                    None \<Rightarrow> Inl NotCanonical
                  | Some rows \<Rightarrow> Inr rows))"
    by (rule load_resolved)
       (simp_all add: resolve_energy_column_def resolve_ks_column_def
          resolve_dose_rate_column_def)
  have miss: "\<not> has_column df e \<or> \<not> has_column df k \<or> \<not> has_column df d \<longrightarrow>
        load_experimental_data (Csv df) (Some e) (Some k) (Some d) =
          Inl (ValueError (ValidationFailed
            [MissingColumns (filter (\<lambda>c. \<not> has_column df c) [e, k, d])]))"
  proof
    assume "\<not> has_column df e \<or> \<not> has_column df k \<or> \<not> has_column df d"
    then show "load_experimental_data (Csv df) (Some e) (Some k) (Some d) =
          Inl (ValueError (ValidationFailed
            [MissingColumns (filter (\<lambda>c. \<not> has_column df c) [e, k, d])]))"
      unfolding expl by (simp add: validate_missing)
  qed
  have dose: "(find_column df REQUIRED_COLUMNS_dose_rate_air = Some a \<longrightarrow>
        resolve_dose_rate_column df None = Inr a)
   \<and> (find_column df REQUIRED_COLUMNS_dose_rate_air = None
        \<and> find_column df REQUIRED_COLUMNS_dose_rate_water = Some w \<longrightarrow>
        resolve_dose_rate_column df None = Inr w)
   \<and> (find_column df REQUIRED_COLUMNS_dose_rate_air = None
        \<and> find_column df REQUIRED_COLUMNS_dose_rate_water = None \<longrightarrow>
        resolve_dose_rate_column df None =
          Inl (ValueError (DoseRateColumnNotFound
            [''dose_rate_air_Gy_s'', ''dose_rate_air'', ''doserate_air_Gy_s'',
             ''dose_rate_water_Gy_s'', ''dose_rate_water'', ''doserate_water_Gy_s''])))"
    by (simp add: resolve_dose_rate_column_def)
       (simp add: REQUIRED_COLUMNS_dose_rate_air_def REQUIRED_COLUMNS_dose_rate_water_def)
  show ?thesis
    using find_column_Some_iff [of df names n] find_column_None_iff [of df names]
      expl miss dose load_explicit_absent [of df c]
    by (simp add: resolve_energy_column_def resolve_ks_column_def resolve_dose_rate_column_def)
qed


lemma alias_frame_has:
  "has_column alias_frame c \<longleftrightarrow>
     c \<in> {''energy'', ''E_MeV'', ''ks'', ''dose_rate_water'', ''my_rate''}"
  by (auto simp: alias_frame_def has_column_def)

lemma alias_frame_find:
  "find_column alias_frame REQUIRED_COLUMNS_energy = Some ''E_MeV''"
  "find_column alias_frame REQUIRED_COLUMNS_ks = Some ''ks''"
  "find_column alias_frame REQUIRED_COLUMNS_dose_rate_air = None"
  "find_column alias_frame REQUIRED_COLUMNS_dose_rate_water = Some ''dose_rate_water''"
  by (simp_all add: REQUIRED_COLUMNS_energy_def REQUIRED_COLUMNS_ks_def
      REQUIRED_COLUMNS_dose_rate_air_def REQUIRED_COLUMNS_dose_rate_water_def alias_frame_has)

lemma alias_frame_load:
  "load_experimental_data (Csv alias_frame) (Some ''energy'') None (Some ''my_rate'') =
     Inr [\<lparr>Energy_MeV = 10, k_s = 9 / 10, dose_rate_Gy_s = 2, dose_rate_Gy_min = Num 120\<rparr>]"
proof -
  have v: "validate_experimental_data alias_frame ''energy'' ''ks'' ''my_rate'' = (True, [])"
    by (simp add: validate_experimental_data_def Let_def alias_frame_def get_column_def
        len_df_def positive_errors_def nonnegative_errors_def)
  have s: "standardize alias_frame ''energy'' ''ks'' ''my_rate'' =
     Some [\<lparr>Energy_MeV = 10, k_s = 9 / 10, dose_rate_Gy_s = 2, dose_rate_Gy_min = Num 120\<rparr>]"
    by (simp add: standardize_def rename_columns_def rename_label_def labelled_def
        alias_frame_def make_rows_def)
  show ?thesis
    by (simp add: load_experimental_data_def resolve_energy_column_def resolve_ks_column_def
        resolve_dose_rate_column_def alias_frame_find v s)
qed

theorem column_resolution_witness:
  "find_column alias_frame REQUIRED_COLUMNS_energy = Some ''E_MeV''
   \<and> (\<exists>i<length REQUIRED_COLUMNS_energy.
         REQUIRED_COLUMNS_energy ! i = ''E_MeV'' \<and> has_column alias_frame ''E_MeV''
         \<and> (\<forall>j<i. \<not> has_column alias_frame (REQUIRED_COLUMNS_energy ! j)))
   \<and> \<not> has_column alias_frame ''nope''
   \<and> (\<exists>err. load_experimental_data (Csv alias_frame) (Some ''nope'') None None
                = Inl (ValueError err))
   \<and> load_experimental_data (Csv alias_frame) (Some ''nope'') (Some ''ks'') (Some ''my_rate'')
       = Inl (ValueError (ValidationFailed [MissingColumns [''nope'']]))
   \<and> find_column alias_frame REQUIRED_COLUMNS_dose_rate_air = None
   \<and> find_column alias_frame REQUIRED_COLUMNS_dose_rate_water = Some ''dose_rate_water''
   \<and> resolve_dose_rate_column alias_frame None = Inr ''dose_rate_water''
   \<and> load_experimental_data (Csv alias_frame) (Some ''energy'') None (Some ''my_rate'') =
       Inr [\<lparr>Energy_MeV = 10, k_s = 9 / 10, dose_rate_Gy_s = 2, dose_rate_Gy_min = Num 120\<rparr>]"
proof -
  note t1 = column_resolution [where df = alias_frame and names = REQUIRED_COLUMNS_energy
      and n = "''E_MeV''" and c = "''nope''" and e = "''nope''" and k = "''ks''"
      and d = "''my_rate''" and eo = None and ko = None and dc = None
      and w = "''dose_rate_water''"]
  have n: "\<not> has_column alias_frame ''nope''"
    by (simp add: alias_frame_has)
  have h: "has_column alias_frame ''ks''" "has_column alias_frame ''my_rate''"
    by (simp_all add: alias_frame_has)
  have a: "\<exists>i<length REQUIRED_COLUMNS_energy.
         REQUIRED_COLUMNS_energy ! i = ''E_MeV'' \<and> has_column alias_frame ''E_MeV''
         \<and> (\<forall>j<i. \<not> has_column alias_frame (REQUIRED_COLUMNS_energy ! j))"
    using t1 alias_frame_find(1) by blast
  have b: "\<exists>err. load_experimental_data (Csv alias_frame) (Some ''nope'') None None
                = Inl (ValueError err)"
    using t1 n by blast
  have c: "load_experimental_data (Csv alias_frame) (Some ''nope'') (Some ''ks'') (Some ''my_rate'')
       = Inl (ValueError (ValidationFailed [MissingColumns [''nope'']]))"
  proof -
    have "load_experimental_data (Csv alias_frame) (Some ''nope'') (Some ''ks'') (Some ''my_rate'')
       = Inl (ValueError (ValidationFailed
            [MissingColumns (filter (\<lambda>c. \<not> has_column alias_frame c)
               [''nope'', ''ks'', ''my_rate''])]))"
      using t1 n by blast
    then show ?thesis using n h by simp
  qed
  have d: "resolve_dose_rate_column alias_frame None = Inr ''dose_rate_water''"
    using t1 alias_frame_find(3,4) by blast
  show ?thesis
    using a b c d n alias_frame_find alias_frame_load by blast
qed

section \<open>The continuous beam loop\<close>

lemma continuous_loop_calls:
  "fst (continuous_loop sim cfg s idx rows) =
     map (\<lambda>i. call_args cfg s (idx + i) (rows ! i)) [0..<length rows]"
proof (induction rows arbitrary: idx)
  case Nil
  then show ?case by simp
next
  case (Cons row rows)
  have "map (\<lambda>i. call_args cfg s (idx + i) ((row # rows) ! i)) [0..<length (row # rows)] =
        call_args cfg s idx row # map (\<lambda>i. call_args cfg s (Suc idx + i) (rows ! i)) [0..<length rows]"
    by (simp add: upt_conv_Cons map_Suc_upt [symmetric] del: upt_Suc)
  then show ?case using Cons.IH [of "Suc idx"] by (simp add: Let_def)
qed

lemma continuous_loop_results:
  "snd (continuous_loop sim cfg s idx rows) =
     map (\<lambda>i. try_row sim (call_args cfg s (idx + i) (rows ! i)) (rows ! i)) [0..<length rows]"
proof (induction rows arbitrary: idx)
  case Nil
  then show ?case by simp
next
  case (Cons row rows)
  have "map (\<lambda>i. try_row sim (call_args cfg s (idx + i) ((row # rows) ! i)) ((row # rows) ! i))
           [0..<length (row # rows)] =
        try_row sim (call_args cfg s idx row) row #
        map (\<lambda>i. try_row sim (call_args cfg s (Suc idx + i) (rows ! i)) (rows ! i)) [0..<length rows]"
    by (simp add: upt_conv_Cons map_Suc_upt [symmetric] del: upt_Suc)
  then show ?case using Cons.IH [of "Suc idx"] by (simp add: Let_def)
qed

lemma continuous_loop_empty_iff:
  "snd (continuous_loop sim cfg s idx rows) = [] \<longleftrightarrow> rows = []"
  by (simp add: continuous_loop_results)

lemma try_row_one:
  assumes "\<And>a rs. sim a = Inr rs \<Longrightarrow> length rs = 1"
  shows "length (try_row sim a row) = 1"
  using assms by (auto simp: try_row_def split: sum.splits)

lemma concat_singletons:
  assumes "\<And>x. x \<in> set xss \<Longrightarrow> length x = 1"
  shows "concat xss = map hd xss"
  using assms
proof (induction xss)
  case Nil
  then show ?case by simp
next
  case (Cons xs xss)
  then have "length xs = 1" by simp
  then obtain x where "xs = [x]" by (cases xs) auto
  then show ?case using Cons by simp
qed

lemma continuous_df_one_row:
  assumes "\<And>a rs. sim a = Inr rs \<Longrightarrow> length rs = 1"
  shows "concat (snd (continuous_loop sim cfg s 0 rows)) =
           map (\<lambda>i. hd (try_row sim (call_args cfg s i (rows ! i)) (rows ! i))) [0..<length rows]"
proof -
  have "concat (snd (continuous_loop sim cfg s 0 rows)) = map hd (snd (continuous_loop sim cfg s 0 rows))"
    by (rule concat_singletons) (auto simp: continuous_loop_results try_row_one [OF assms])
  then show ?thesis by (simp add: continuous_loop_results comp_def)
qed


lemma nth_comparison:
  assumes "length vs = length data" "i < length data"
  shows "map (\<lambda>(row, v). comparison_row row v) (zip data vs) ! i = comparison_row (data ! i) (vs ! i)"
  using assms by simp

section \<open>The scenario of the specification\<close>

lemma scenario_loaded: "ComparisonRunner scenario_config = Inr scenario_runner"
proof -
  have f: "find_column scenario_frame REQUIRED_COLUMNS_energy = Some ''Energy_MeV''"
    "find_column scenario_frame REQUIRED_COLUMNS_ks = Some ''k_s''"
    "find_column scenario_frame REQUIRED_COLUMNS_dose_rate_air = Some ''dose_rate_air_Gy_s''"
    by (simp_all add: REQUIRED_COLUMNS_energy_def REQUIRED_COLUMNS_ks_def
      REQUIRED_COLUMNS_dose_rate_air_def scenario_frame_def has_column_def)
  have v: "validate_experimental_data scenario_frame ''Energy_MeV'' ''k_s'' ''dose_rate_air_Gy_s''
             = (True, [])"
    by (simp add: validate_experimental_data_def Let_def scenario_frame_def get_column_def
        len_df_def positive_errors_def nonnegative_errors_def)
  have s: "standardize scenario_frame ''Energy_MeV'' ''k_s'' ''dose_rate_air_Gy_s''
             = Some scenario_data"
    by (simp add: standardize_def rename_columns_def rename_label_def labelled_def
        scenario_frame_def make_rows_def scenario_data_def)
  have "load_experimental_data (Csv scenario_frame) None None None = Inr scenario_data"
    by (simp add: load_experimental_data_def resolve_energy_column_def resolve_ks_column_def
        resolve_dose_rate_column_def f v s)
  then show ?thesis
    by (simp add: ComparisonRunner_def scenario_config_def scenario_runner_def)
qed

lemma scenario_seed: "determine_seed (simulation (config scenario_runner)) g = 42"
  by (simp add: determine_seed_def scenario_runner_def scenario_config_def default_simulation_def)

lemma failing_batch:
  "snd (continuous_batch failing_beam g scenario_runner) =
     [[\<lparr>ks_IonTracks = None, beam_E_MeV_u = Some 10\<rparr>],
      [\<lparr>ks_IonTracks = None, beam_E_MeV_u = Some 10\<rparr>],
      [\<lparr>ks_IonTracks = None, beam_E_MeV_u = Some 10\<rparr>],
      [\<lparr>ks_IonTracks = None, beam_E_MeV_u = Some 20\<rparr>],
      [\<lparr>ks_IonTracks = None, beam_E_MeV_u = Some 20\<rparr>],
      [\<lparr>ks_IonTracks = None, beam_E_MeV_u = Some 20\<rparr>]]"
  by (simp add: continuous_batch_def Let_def scenario_seed)
     (simp add: scenario_runner_def scenario_data_def try_row_def failing_beam_def)

text \<open>
  Claim C1, on the code. The runner is the one that the constructor builds from the scenario
  file, every call of the simulation raises, and \<open>run_continuous_beam\<close> returns an empty
  comparison frame without raising: each failed row has put its placeholder into
  \<^verbatim>\<open>continuous_results_list\<close>, so the test \<^verbatim>\<open>if not continuous_results_list\<close>
  does not fire, and \<^verbatim>\<open>dropna\<close> then removes every row.
\<close>

theorem all_rows_fail_no_error:
  "ComparisonRunner scenario_config = Inr scenario_runner
   \<and> (\<forall>args. \<exists>e. failing_beam args = Inl e)
   \<and> exp_data scenario_runner \<noteq> []
   \<and> run_continuous_beam failing_beam g scenario_runner =
       (Inr [],
        scenario_runner
          \<lparr>continuous_results := Some
             [\<lparr>ks_IonTracks = None, beam_E_MeV_u = Some 10\<rparr>,
              \<lparr>ks_IonTracks = None, beam_E_MeV_u = Some 10\<rparr>,
              \<lparr>ks_IonTracks = None, beam_E_MeV_u = Some 10\<rparr>,
              \<lparr>ks_IonTracks = None, beam_E_MeV_u = Some 20\<rparr>,
              \<lparr>ks_IonTracks = None, beam_E_MeV_u = Some 20\<rparr>,
              \<lparr>ks_IonTracks = None, beam_E_MeV_u = Some 20\<rparr>],
           comparison_continuous := Some []\<rparr>)"
proof -
  have "run_continuous_beam failing_beam g scenario_runner =
       (Inr [],
        scenario_runner
          \<lparr>continuous_results := Some
             [\<lparr>ks_IonTracks = None, beam_E_MeV_u = Some 10\<rparr>,
              \<lparr>ks_IonTracks = None, beam_E_MeV_u = Some 10\<rparr>,
              \<lparr>ks_IonTracks = None, beam_E_MeV_u = Some 10\<rparr>,
              \<lparr>ks_IonTracks = None, beam_E_MeV_u = Some 20\<rparr>,
              \<lparr>ks_IonTracks = None, beam_E_MeV_u = Some 20\<rparr>,
              \<lparr>ks_IonTracks = None, beam_E_MeV_u = Some 20\<rparr>],
           comparison_continuous := Some []\<rparr>)"
    by (simp add: run_continuous_beam_def Let_def failing_batch)
       (simp add: scenario_runner_def scenario_data_def comparison_frame_def dropna_def
          comparison_row_def fsub_def)
  then show ?thesis
    by (simp add: scenario_loaded failing_beam_def) (simp add: scenario_runner_def scenario_data_def)
qed

section \<open>Seeding and row alignment of the continuous beam comparison\<close>

lemma batch_calls:
  "fst (continuous_batch sim g self) =
     map (\<lambda>i. call_args (simulation (config self))
                 (determine_seed (simulation (config self)) g) i (exp_data self ! i))
       [0..<length (exp_data self)]"
  by (simp add: continuous_batch_def Let_def continuous_loop_calls)

lemma batch_results:
  "snd (continuous_batch sim g self) =
     map (\<lambda>i. try_row sim (fst (continuous_batch sim g self) ! i) (exp_data self ! i))
       [0..<length (exp_data self)]"
  by (simp add: batch_calls) (simp add: continuous_batch_def Let_def continuous_loop_results)

lemma batch_empty_iff: "snd (continuous_batch sim g self) = [] \<longleftrightarrow> exp_data self = []"
  by (simp add: continuous_batch_def Let_def continuous_loop_empty_iff)

lemma batch_one_row:
  assumes "\<And>a rs. sim a = Inr rs \<Longrightarrow> length rs = 1"
  shows "concat (snd (continuous_batch sim g self)) =
           map (\<lambda>i. hd (try_row sim (fst (continuous_batch sim g self) ! i) (exp_data self ! i)))
             [0..<length (exp_data self)]"
  by (simp add: batch_calls) (simp add: continuous_batch_def Let_def continuous_df_one_row [OF assms])


text \<open>
  Claim C3. If every successful call of the simulation returns a frame of exactly one row,
  then whatever calls fail, the comparison frame before \<^verbatim>\<open>dropna\<close> is built without
  error, has as many rows as the dataset, and its row \<open>i\<close> carries the experimental values
  of row \<open>i\<close> together with the simulated value of the call for row \<open>i\<close>, or NaN when
  that call failed. On the dataset of a runner (which is never empty)
  \<open>run_continuous_beam\<close> returns and stores this frame after \<^verbatim>\<open>dropna\<close>.
\<close>

theorem row_alignment:
  assumes "\<And>a rs. sim a = Inr rs \<Longrightarrow> length rs = 1"
  shows "\<exists>frame.
     comparison_frame (exp_data self)
         (map ks_IonTracks (concat (snd (continuous_batch sim g self)))) = Inr frame
     \<and> length frame = length (exp_data self)
     \<and> (\<forall>i<length (exp_data self).
          Energy_MeV (frame ! i) = Energy_MeV (exp_data self ! i)
          \<and> k_s (frame ! i) = k_s (exp_data self ! i)
          \<and> dose_rate_Gy_s (frame ! i) = dose_rate_Gy_s (exp_data self ! i)
          \<and> dose_rate_Gy_min (frame ! i) = dose_rate_Gy_min (exp_data self ! i)
          \<and> (\<forall>e. sim (fst (continuous_batch sim g self) ! i) = Inl e
                \<longrightarrow> k_s_IonTracks (frame ! i) = None)
          \<and> (\<forall>r. sim (fst (continuous_batch sim g self) ! i) = Inr [r]
                \<longrightarrow> k_s_IonTracks (frame ! i) = ks_IonTracks r))
     \<and> (exp_data self \<noteq> [] \<longrightarrow>
          run_continuous_beam sim g self =
            (Inr (dropna frame),
             self\<lparr>continuous_results := Some (concat (snd (continuous_batch sim g self))),
                  comparison_continuous := Some (dropna frame)\<rparr>))"
proof -
  let ?data = "exp_data self"
  let ?calls = "fst (continuous_batch sim g self)"
  let ?vs = "map ks_IonTracks (concat (snd (continuous_batch sim g self)))"
  let ?frame = "map (\<lambda>(row, v). comparison_row row v) (zip ?data ?vs)"
  have vs: "?vs = map (\<lambda>i. ks_IonTracks (hd (try_row sim (?calls ! i) (?data ! i))))
                    [0..<length ?data]"
    by (simp add: batch_one_row [OF assms] comp_def)
  have len: "length ?vs = length ?data"
    unfolding vs by simp
  have cf: "comparison_frame ?data ?vs = Inr ?frame"
    using len by (simp add: comparison_frame_def)
  have nth: "?frame ! i = comparison_row (?data ! i) (?vs ! i)" if "i < length ?data" for i
    using nth_comparison [OF len that] .
  have vi: "?vs ! i = ks_IonTracks (hd (try_row sim (?calls ! i) (?data ! i)))"
    if "i < length ?data" for i
    unfolding vs using that by simp
  have rows: "Energy_MeV (?frame ! i) = Energy_MeV (?data ! i)
          \<and> k_s (?frame ! i) = k_s (?data ! i)
          \<and> dose_rate_Gy_s (?frame ! i) = dose_rate_Gy_s (?data ! i)
          \<and> dose_rate_Gy_min (?frame ! i) = dose_rate_Gy_min (?data ! i)
          \<and> (\<forall>e. sim (?calls ! i) = Inl e \<longrightarrow> k_s_IonTracks (?frame ! i) = None)
          \<and> (\<forall>r. sim (?calls ! i) = Inr [r] \<longrightarrow> k_s_IonTracks (?frame ! i) = ks_IonTracks r)"
    if "i < length ?data" for i
    unfolding nth [OF that] vi [OF that]
    by (simp add: comparison_row_def Let_def try_row_def)
  have run: "?data \<noteq> [] \<longrightarrow>
          run_continuous_beam sim g self =
            (Inr (dropna ?frame),
             self\<lparr>continuous_results := Some (concat (snd (continuous_batch sim g self))),
                  comparison_continuous := Some (dropna ?frame)\<rparr>)"
    using cf by (simp add: run_continuous_beam_def Let_def batch_empty_iff)
  have "length ?frame = length ?data" using len by simp
  with cf rows run show ?thesis by blast
qed


lemma scenario_length: "length (exp_data scenario_runner) = 6"
  by (simp add: scenario_runner_def scenario_data_def)




lemma stub_beam_cases: "(\<exists>e. stub_beam a = Inl e) \<or> (\<exists>r. stub_beam a = Inr [r])"
  by (simp add: stub_beam_def)

lemma stub_beam_one_row: "stub_beam a = Inr rs \<Longrightarrow> length rs = 1"
  by (auto simp: stub_beam_def split: if_splits)

lemma stub_calls:
  "fst (continuous_batch stub_beam g scenario_runner) ! 3 =
     \<lparr>arg_E_MeV_u = 20, arg_doserate_Gy_min = Num 30, arg_myseed = 45,
      arg_config = simulation (config scenario_runner)\<rparr>"
  "fst (continuous_batch stub_beam g scenario_runner) ! 0 =
     \<lparr>arg_E_MeV_u = 10, arg_doserate_Gy_min = Num 30, arg_myseed = 42,
      arg_config = simulation (config scenario_runner)\<rparr>"
  by (simp_all add: batch_calls scenario_length scenario_seed call_args_def)
     (simp_all add: scenario_runner_def scenario_data_def)

theorem row_alignment_witness:
  "(\<forall>a. (\<exists>e. stub_beam a = Inl e) \<or> (\<exists>r. stub_beam a = Inr [r]))
   \<and> (\<exists>frame.
        comparison_frame (exp_data scenario_runner)
          (map ks_IonTracks (concat (snd (continuous_batch stub_beam 7 scenario_runner))))
            = Inr frame
        \<and> length (exp_data scenario_runner) = 6
        \<and> length frame = 6
        \<and> (\<exists>e. stub_beam (fst (continuous_batch stub_beam 7 scenario_runner) ! 3) = Inl e)
        \<and> k_s_IonTracks (frame ! 3) = None
        \<and> k_s (frame ! 3) = 97 / 100
        \<and> k_s_IonTracks (frame ! 0) = Some (9 / 10)
        \<and> k_s (frame ! 0) = 95 / 100
        \<and> fst (run_continuous_beam stub_beam 7 scenario_runner) = Inr (dropna frame))"
proof -
  have "\<exists>frame.
        comparison_frame (exp_data scenario_runner)
          (map ks_IonTracks (concat (snd (continuous_batch stub_beam 7 scenario_runner))))
            = Inr frame
      \<and> length frame = length (exp_data scenario_runner)
      \<and> (\<forall>i<length (exp_data scenario_runner).
          Energy_MeV (frame ! i) = Energy_MeV (exp_data scenario_runner ! i)
          \<and> k_s (frame ! i) = k_s (exp_data scenario_runner ! i)
          \<and> dose_rate_Gy_s (frame ! i) = dose_rate_Gy_s (exp_data scenario_runner ! i)
          \<and> dose_rate_Gy_min (frame ! i) = dose_rate_Gy_min (exp_data scenario_runner ! i)
          \<and> (\<forall>e. stub_beam (fst (continuous_batch stub_beam 7 scenario_runner) ! i) = Inl e
                \<longrightarrow> k_s_IonTracks (frame ! i) = None)
          \<and> (\<forall>r. stub_beam (fst (continuous_batch stub_beam 7 scenario_runner) ! i) = Inr [r]
                \<longrightarrow> k_s_IonTracks (frame ! i) = ks_IonTracks r))
      \<and> (exp_data scenario_runner \<noteq> [] \<longrightarrow>
          run_continuous_beam stub_beam 7 scenario_runner =
            (Inr (dropna frame),
             scenario_runner\<lparr>continuous_results :=
                    Some (concat (snd (continuous_batch stub_beam 7 scenario_runner))),
                  comparison_continuous := Some (dropna frame)\<rparr>))"
    by (rule row_alignment) (rule stub_beam_one_row)
  then obtain frame where
    cf: "comparison_frame (exp_data scenario_runner)
          (map ks_IonTracks (concat (snd (continuous_batch stub_beam 7 scenario_runner))))
            = Inr frame"
    and len: "length frame = length (exp_data scenario_runner)"
    and rows: "\<forall>i<length (exp_data scenario_runner).
          Energy_MeV (frame ! i) = Energy_MeV (exp_data scenario_runner ! i)
          \<and> k_s (frame ! i) = k_s (exp_data scenario_runner ! i)
          \<and> dose_rate_Gy_s (frame ! i) = dose_rate_Gy_s (exp_data scenario_runner ! i)
          \<and> dose_rate_Gy_min (frame ! i) = dose_rate_Gy_min (exp_data scenario_runner ! i)
          \<and> (\<forall>e. stub_beam (fst (continuous_batch stub_beam 7 scenario_runner) ! i) = Inl e
                \<longrightarrow> k_s_IonTracks (frame ! i) = None)
          \<and> (\<forall>r. stub_beam (fst (continuous_batch stub_beam 7 scenario_runner) ! i) = Inr [r]
                \<longrightarrow> k_s_IonTracks (frame ! i) = ks_IonTracks r)"
    and run: "exp_data scenario_runner \<noteq> [] \<longrightarrow>
          run_continuous_beam stub_beam 7 scenario_runner =
            (Inr (dropna frame),
             scenario_runner\<lparr>continuous_results :=
                    Some (concat (snd (continuous_batch stub_beam 7 scenario_runner))),
                  comparison_continuous := Some (dropna frame)\<rparr>)"
    by (elim exE conjE) (rule that, assumption+)
  have f3: "stub_beam (fst (continuous_batch stub_beam 7 scenario_runner) ! 3)
              = Inl (SimulationError ''injected failure'')"
    by (simp add: stub_calls stub_beam_def)
  have f0: "stub_beam (fst (continuous_batch stub_beam 7 scenario_runner) ! 0)
              = Inr [\<lparr>ks_IonTracks = Some (9 / 10), beam_E_MeV_u = Some 10\<rparr>]"
    by (simp add: stub_calls stub_beam_def)
  have k3: "k_s_IonTracks (frame ! 3) = None" "k_s (frame ! 3) = 97 / 100"
    using rows [rule_format, of 3] f3 scenario_length
    by (simp_all add: scenario_runner_def scenario_data_def)
  have k0: "k_s_IonTracks (frame ! 0) = Some (9 / 10)" "k_s (frame ! 0) = 95 / 100"
    using rows [rule_format, of 0] f0 scenario_length
    by (simp_all add: scenario_runner_def scenario_data_def)
  have r: "fst (run_continuous_beam stub_beam 7 scenario_runner) = Inr (dropna frame)"
    using run scenario_length by auto
  show ?thesis
    using cf len scenario_length stub_beam_cases f3 k3 k0 r by auto
qed

section \<open>The reference value of the initial recombination comparison\<close>

lemma scenario_energies:
  "sort (remdups (map Energy_MeV (exp_data scenario_runner))) = [10, 20]"
  by (simp add: scenario_runner_def scenario_data_def)

lemma scenario_initial_loop:
  "initial_loop stub_point cfg [10, 20] = [[\<lparr>E_MeV_u = Some 10, ks = Some (81 / 100)\<rparr>]]"
  by (simp add: stub_point_def)

lemma scenario_compare:
  "compare_initial (exp_data scenario_runner) [\<lparr>E_MeV_u = Some 10, ks = Some (81 / 100)\<rparr>] [10, 20]
     = [\<lparr>ir_Energy_MeV = 10, k_s_experimental = Some (80 / 100),
          ir_k_s_IonTracks = Some (81 / 100), ir_difference = Some (1 / 100),
          ir_relative_error_pct = Some (5 / 4)\<rparr>]"
  by (simp add: scenario_runner_def scenario_data_def Let_def fsub_def fmul_def fdiv_def)

text \<open>
  Claim C2, on the code. On the scenario of the specification the record for 10 MeV has the
  reference 0.80, the least k\_s of the three rows of that energy, measured at the highest
  dose rate; the row with the minimum dose rate has k\_s 0.95.
\<close>

theorem initial_reference_is_minimum_k_s:
  "ComparisonRunner scenario_config = Inr scenario_runner
   \<and> fst (run_initial_recombination stub_point scenario_runner) =
       Inr [\<lparr>ir_Energy_MeV = 10, k_s_experimental = Some (80 / 100),
            ir_k_s_IonTracks = Some (81 / 100), ir_difference = Some (1 / 100),
            ir_relative_error_pct = Some (5 / 4)\<rparr>]
   \<and> reference_at_min_dose_rate (exp_data scenario_runner) 10 = Some (95 / 100)"
proof -
  have r: "reference_at_min_dose_rate (exp_data scenario_runner) 10 = Some (95 / 100)"
    by (simp add: reference_at_min_dose_rate_def scenario_runner_def scenario_data_def)
  have "fst (run_initial_recombination stub_point scenario_runner) =
       Inr [\<lparr>ir_Energy_MeV = 10, k_s_experimental = Some (80 / 100),
            ir_k_s_IonTracks = Some (81 / 100), ir_difference = Some (1 / 100),
            ir_relative_error_pct = Some (5 / 4)\<rparr>]"
    by (simp add: run_initial_recombination_def Let_def scenario_energies
        scenario_initial_loop scenario_compare
        del: initial_loop.simps compare_initial.simps)
  then show ?thesis using r scenario_loaded by simp
qed

section \<open>The records of the two comparisons\<close>







section \<open>The arithmetic of the comparison records\<close>



lemma stub_batch:
  "snd (continuous_batch stub_beam g scenario_runner) =
     [[\<lparr>ks_IonTracks = Some (9 / 10), beam_E_MeV_u = Some 10\<rparr>],
      [\<lparr>ks_IonTracks = Some (9 / 10), beam_E_MeV_u = Some 10\<rparr>],
      [\<lparr>ks_IonTracks = Some (9 / 10), beam_E_MeV_u = Some 10\<rparr>],
      [\<lparr>ks_IonTracks = None, beam_E_MeV_u = Some 20\<rparr>],
      [\<lparr>ks_IonTracks = Some (9 / 10), beam_E_MeV_u = Some 20\<rparr>],
      [\<lparr>ks_IonTracks = Some (9 / 10), beam_E_MeV_u = Some 20\<rparr>]]"
  by (simp add: continuous_batch_def Let_def scenario_seed)
     (simp add: scenario_runner_def scenario_data_def try_row_def stub_beam_def call_args_def)

lemma stub_run_length:
  "\<exists>crecs. fst (run_continuous_beam stub_beam g scenario_runner) = Inr crecs \<and> length crecs = 5"
  by (simp add: run_continuous_beam_def Let_def stub_batch)
     (simp add: scenario_runner_def scenario_data_def comparison_frame_def dropna_def
        comparison_row_def fsub_def Let_def del: not_None_eq)


lemma stub_initial_run:
  "fst (run_initial_recombination stub_point scenario_runner) =
       Inr [\<lparr>ir_Energy_MeV = 10, k_s_experimental = Some (80 / 100),
            ir_k_s_IonTracks = Some (81 / 100), ir_difference = Some (1 / 100),
            ir_relative_error_pct = Some (5 / 4)\<rparr>]"
  by (simp add: run_initial_recombination_def Let_def scenario_energies
        scenario_initial_loop scenario_compare
        del: initial_loop.simps compare_initial.simps)


section \<open>Validated k\_s values are positive\<close>




















section \<open>The stored results of the runner\<close>

lemma run_initial_frame:
  "config (snd (run_initial_recombination psim self)) = config self"
  "exp_data (snd (run_initial_recombination psim self)) = exp_data self"
  "continuous_results (snd (run_initial_recombination psim self)) = continuous_results self"
  "comparison_continuous (snd (run_initial_recombination psim self)) = comparison_continuous self"
  by (simp_all add: run_initial_recombination_def Let_def)

lemma run_continuous_frame:
  "config (snd (run_continuous_beam bsim g self)) = config self"
  "exp_data (snd (run_continuous_beam bsim g self)) = exp_data self"
  "initial_results (snd (run_continuous_beam bsim g self)) = initial_results self"
  "comparison_initial (snd (run_continuous_beam bsim g self)) = comparison_initial self"
  by (simp_all add: run_continuous_beam_def Let_def split: sum.splits)

lemma run_initial_depends:
  assumes "config s = config s'" "exp_data s = exp_data s'"
  shows "fst (run_initial_recombination psim s) = fst (run_initial_recombination psim s')"
  using assms by (simp add: run_initial_recombination_def Let_def)

lemma run_continuous_depends:
  assumes "config s = config s'" "exp_data s = exp_data s'"
  shows "fst (run_continuous_beam bsim g s) = fst (run_continuous_beam bsim g s')"
  using assms
  by (simp add: run_continuous_beam_def continuous_batch_def Let_def split: sum.splits)

lemma run_initial_stores:
  assumes "run_initial_recombination psim s = (Inr recs, s')"
  shows "comparison_initial s' = Some recs"
  using assms by (auto simp: run_initial_recombination_def Let_def split: if_splits)

lemma run_continuous_stores:
  assumes "run_continuous_beam bsim g s = (Inr recs, s')"
  shows "comparison_continuous s' = Some recs"
  using assms
  by (auto simp: run_continuous_beam_def Let_def split: if_splits sum.splits)

lemma save_initial_eq:
  "save_initial self =
     Inr (case comparison_initial self of
            None \<Rightarrow> [] | Some [] \<Rightarrow> [] | Some (r # rs) \<Rightarrow> [Comparison_initial_csv (r # rs)])"
  by (simp add: save_initial_def present_and_nonempty_def py_len_def frame_of_def
      split: option.splits list.splits)

lemma save_continuous_eq:
  "save_continuous self =
     Inr (case comparison_continuous self of
            None \<Rightarrow> [] | Some [] \<Rightarrow> []
          | Some (r # rs) \<Rightarrow>
              [Comparison_continuous_csv (r # rs),
               Comparison_continuous_clean_csv (map clean_row (r # rs))])"
  by (simp add: save_continuous_def present_and_nonempty_def py_len_def frame_of_def
      split: option.splits list.splits)

text \<open>
  Claim C8. Running a phase again returns what a run on the original runner returns, and a
  run that succeeds stores exactly the frame it returns: the stored result of the phase is
  replaced, nothing of the earlier result enters it. A run of one phase leaves the stored
  comparison of the other phase as it was. \<open>save_results\<close> never raises, whatever has been
  stored: it writes the initial comparison when that is present and has rows, then the
  continuous comparison and its clean version when that is present and has rows, and
  nothing for a result that is absent or empty.
\<close>

theorem phases_overwrite_and_save:
  "fst (run_initial_recombination psim' (snd (run_initial_recombination psim self)))
     = fst (run_initial_recombination psim' self)
   \<and> (run_initial_recombination psim' (snd (run_initial_recombination psim self))
         = (Inr irecs, self1) \<longrightarrow> comparison_initial self1 = Some irecs)
   \<and> fst (run_continuous_beam bsim' g' (snd (run_continuous_beam bsim g self)))
     = fst (run_continuous_beam bsim' g' self)
   \<and> (run_continuous_beam bsim' g' (snd (run_continuous_beam bsim g self))
         = (Inr crecs, self2) \<longrightarrow> comparison_continuous self2 = Some crecs)
   \<and> comparison_continuous (snd (run_initial_recombination psim self))
       = comparison_continuous self
   \<and> comparison_initial (snd (run_continuous_beam bsim g self)) = comparison_initial self
   \<and> save_results self =
       Inr ((case comparison_initial self of
               None \<Rightarrow> [] | Some [] \<Rightarrow> []
             | Some (r # rs) \<Rightarrow> [Comparison_initial_csv (r # rs)])
            @ (case comparison_continuous self of
                 None \<Rightarrow> [] | Some [] \<Rightarrow> []
               | Some (r # rs) \<Rightarrow>
                   [Comparison_continuous_csv (r # rs),
                    Comparison_continuous_clean_csv (map clean_row (r # rs))]))"
proof -
  have a: "fst (run_initial_recombination psim' (snd (run_initial_recombination psim self)))
     = fst (run_initial_recombination psim' self)"
    by (rule run_initial_depends) (rule run_initial_frame)+
  have b: "fst (run_continuous_beam bsim' g' (snd (run_continuous_beam bsim g self)))
     = fst (run_continuous_beam bsim' g' self)"
    by (rule run_continuous_depends) (rule run_continuous_frame)+
  have c: "save_results self =
       Inr ((case comparison_initial self of
               None \<Rightarrow> [] | Some [] \<Rightarrow> []
             | Some (r # rs) \<Rightarrow> [Comparison_initial_csv (r # rs)])
            @ (case comparison_continuous self of
                 None \<Rightarrow> [] | Some [] \<Rightarrow> []
               | Some (r # rs) \<Rightarrow>
                   [Comparison_continuous_csv (r # rs),
                    Comparison_continuous_clean_csv (map clean_row (r # rs))]))"
    by (simp add: save_results_def save_initial_eq save_continuous_eq)
  show ?thesis
    using a b c run_initial_stores [of psim' "snd (run_initial_recombination psim self)" irecs self1]
      run_continuous_stores [of bsim' g' "snd (run_continuous_beam bsim g self)" crecs self2]
      run_initial_frame(4) [of psim self] run_continuous_frame(4) [of bsim g self]
    by blast
qed


lemma fresh_runner: "comparison_initial scenario_runner = None"
  "comparison_continuous scenario_runner = None"
  by (simp_all add: scenario_runner_def)

theorem phases_overwrite_and_save_witness:
  "(\<exists>rec. fst (run_initial_recombination stub_point scenario_runner) = Inr [rec]
      \<and> fst (run_initial_recombination stub_point
                (snd (run_initial_recombination stub_point scenario_runner))) = Inr [rec]
      \<and> comparison_initial (snd (run_initial_recombination stub_point
                (snd (run_initial_recombination stub_point scenario_runner)))) = Some [rec])
   \<and> (\<exists>crecs. fst (run_continuous_beam stub_beam 7 scenario_runner) = Inr crecs
      \<and> length crecs = 5
      \<and> fst (run_continuous_beam stub_beam 7
                (snd (run_continuous_beam failing_beam 7 scenario_runner))) = Inr crecs
      \<and> comparison_continuous (snd (run_continuous_beam stub_beam 7
                (snd (run_continuous_beam failing_beam 7 scenario_runner)))) = Some crecs)
   \<and> comparison_continuous (snd (run_initial_recombination stub_point scenario_runner)) = None
   \<and> comparison_initial (snd (run_continuous_beam stub_beam 7 scenario_runner)) = None
   \<and> save_results scenario_runner = Inr []"
proof -
  let ?rec = "\<lparr>ir_Energy_MeV = 10, k_s_experimental = Some (80 / 100),
            ir_k_s_IonTracks = Some (81 / 100), ir_difference = Some (1 / 100),
            ir_relative_error_pct = Some (5 / 4)\<rparr>"
  let ?s1 = "snd (run_initial_recombination stub_point scenario_runner)"
  let ?s2 = "snd (run_continuous_beam failing_beam 7 scenario_runner)"
  obtain crecs where c: "fst (run_continuous_beam stub_beam 7 scenario_runner) = Inr crecs"
    "length crecs = 5"
    using stub_run_length [of 7] by blast
  note t = phases_overwrite_and_save [where self = scenario_runner and psim = stub_point
      and psim' = stub_point and bsim = failing_beam and g = 7 and bsim' = stub_beam
      and g' = 7 and irecs = "[?rec]" and crecs = crecs
      and ?self1.0 = "snd (run_initial_recombination stub_point ?s1)"
      and ?self2.0 = "snd (run_continuous_beam stub_beam 7 ?s2)"]
  note u = phases_overwrite_and_save [where self = scenario_runner and psim = stub_point
      and bsim = stub_beam and g = 7]
  from t stub_initial_run have i1:
    "fst (run_initial_recombination stub_point ?s1) = Inr [?rec]"
    by simp
  then have "run_initial_recombination stub_point ?s1 =
      (Inr [?rec], snd (run_initial_recombination stub_point ?s1))"
    by (simp add: prod_eq_iff)
  with t have i2: "comparison_initial (snd (run_initial_recombination stub_point ?s1))
      = Some [?rec]"
    by blast
  from t c(1) have c1: "fst (run_continuous_beam stub_beam 7 ?s2) = Inr crecs"
    by simp
  then have "run_continuous_beam stub_beam 7 ?s2 =
      (Inr crecs, snd (run_continuous_beam stub_beam 7 ?s2))"
    by (simp add: prod_eq_iff)
  with t have c2: "comparison_continuous (snd (run_continuous_beam stub_beam 7 ?s2))
      = Some crecs"
    by blast
  from u fresh_runner have f:
    "comparison_continuous (snd (run_initial_recombination stub_point scenario_runner)) = None"
    "comparison_initial (snd (run_continuous_beam stub_beam 7 scenario_runner)) = None"
    by simp_all
  from u fresh_runner have s: "save_results scenario_runner = Inr []"
    by simp
  have A: "\<exists>rec. fst (run_initial_recombination stub_point scenario_runner) = Inr [rec]
      \<and> fst (run_initial_recombination stub_point ?s1) = Inr [rec]
      \<and> comparison_initial (snd (run_initial_recombination stub_point ?s1)) = Some [rec]"
    using stub_initial_run i1 i2 by blast
  have B: "\<exists>crecs. fst (run_continuous_beam stub_beam 7 scenario_runner) = Inr crecs
      \<and> length crecs = 5
      \<and> fst (run_continuous_beam stub_beam 7 ?s2) = Inr crecs
      \<and> comparison_continuous (snd (run_continuous_beam stub_beam 7 ?s2)) = Some crecs"
    using c c1 c2 by blast
  show ?thesis using A B f s by blast
qed

end
